theory Spec2Isabelle
  imports Complex_Main "HOL-Library.AList" "HOL-Library.Log_Nat"
begin

section \<open>Python values and errors\<close>

text \<open>
  The values that travel through the \<open>inputs\<close> and result dictionaries
  (\<open>Dict[str, Any]\<close>). A \<open>dict\<close> value keeps its items in insertion order, as
  Python does. A \<open>float\<close> is only passed through by the code modelled here (never
  computed with), so it is carried as the real number it denotes.
\<close>

datatype pyval =
    PNone
  | PBool bool
  | PInt int
  | PFloat real
  | PStr string
  | PList "pyval list"
  | PDict "(string \<times> pyval) list"

text \<open>Truth value testing, as used by \<open>x or y\<close>.\<close>

fun truthy :: "pyval \<Rightarrow> bool" where
  "truthy PNone = False"
| "truthy (PBool b) = b"
| "truthy (PInt n) = (n \<noteq> 0)"
| "truthy (PFloat r) = (r \<noteq> 0)"
| "truthy (PStr s) = (s \<noteq> [])"
| "truthy (PList xs) = (xs \<noteq> [])"
| "truthy (PDict kvs) = (kvs \<noteq> [])"

definition py_or :: "pyval \<Rightarrow> pyval \<Rightarrow> pyval" where
  "py_or x y = (if truthy x then x else y)"

text \<open>\<open>inputs.get(key, default)\<close> on a dictionary modelled as a map.\<close>

definition dict_get :: "(string \<rightharpoonup> pyval) \<Rightarrow> string \<Rightarrow> pyval \<Rightarrow> pyval" where
  "dict_get d k dflt = (case d k of None \<Rightarrow> dflt | Some v \<Rightarrow> v)"

text \<open>An \<open>Optional[int]\<close> attribute as a Python value.\<close>

definition of_opt_int :: "int option \<Rightarrow> pyval" where
  "of_opt_int x = (case x of None \<Rightarrow> PNone | Some n \<Rightarrow> PInt n)"

text \<open>
  The exceptions \<open>_process_request\<close> can raise. A \<open>ValueError\<close> is kept as the
  statement it leaves, with the value that statement formats into its message:
  the three \<open>raise ValueError(...)\<close> statements, and the statement that builds the
  logged message, where the conversion of an \<open>int\<close> to text can raise
  (\<open>IntMaxStrDigits\<close>). An \<open>OSError\<close> carries its \<open>errno\<close>; \<open>PermissionError\<close> is
  the \<open>OSError\<close> of \<open>errno\<close> 13. Exhausted resources (\<open>MemoryError\<close>,
  \<open>RecursionError\<close>) are not modelled.
\<close>

datatype value_error =
    MeshPathRequired
  | UnsupportedInputFormat string
  | UnsupportedOutputFormat pyval
  | IntMaxStrDigits

datatype error =
    ValueError value_error
  | FileNotFoundError string
  | TypeError
  | OSError nat

section \<open>Strings\<close>

text \<open>
  A \<open>str\<close> is the list of the bytes of its UTF-8 encoding, which is also what the
  file system sees of a path. The characters the code searches for, \<open>/\<close> and \<open>.\<close>,
  are single bytes that occur in the encoding of no other character, so splitting,
  searching and stripping on bytes give the encoding of what Python computes on
  characters.
\<close>

text \<open>\<open>s.lstrip(chars)\<close> for a one-character \<open>chars\<close>.\<close>

definition lstrip :: "string \<Rightarrow> char \<Rightarrow> string" where
  "lstrip s c = dropWhile (\<lambda>x. x = c) s"

text \<open>\<open>s.rfind(c)\<close>: the highest index of \<open>c\<close> in \<open>s\<close>, or \<open>-1\<close>.\<close>

definition rfind :: "string \<Rightarrow> char \<Rightarrow> int" where
  "rfind s c =
     (if c \<in> set s
      then int (length s) - 1 - int (length (takeWhile (\<lambda>x. x \<noteq> c) (rev s)))
      else - 1)"

text \<open>\<open>s.split(sep)\<close> for a one-character separator, and \<open>sep.join(xs)\<close>.\<close>

fun split :: "char \<Rightarrow> string \<Rightarrow> string list" where
  "split c [] = [[]]"
| "split c (x # xs) =
     (if x = c then [] # split c xs
      else (case split c xs of [] \<Rightarrow> [[x]] | y # ys \<Rightarrow> (x # y) # ys))"

fun join :: "char \<Rightarrow> string list \<Rightarrow> string" where
  "join c [] = []"
| "join c [x] = x"
| "join c (x # y # ys) = x @ c # join c (y # ys)"

section \<open>Paths\<close>

text \<open>
  \<open>pathlib.Path\<close> on a POSIX system: a path is its root (\<open>''''\<close>, \<open>''/''\<close> or
  \<open>''//''\<close>) and the list of its components. \<open>Path\<close> parses a string as
  \<open>PurePosixPath\<close> does: leading slashes give the root (exactly two give \<open>//\<close>),
  the rest is split at \<open>/\<close> and the empty and \<open>.\<close> components are dropped.
  Any value that is not a \<open>str\<close> makes the constructor raise \<open>TypeError\<close>.
\<close>

record path =
  root :: string
  names :: "string list"

definition parse_path :: "string \<Rightarrow> path" where
  "parse_path s =
     (let stripped = lstrip s CHR ''/'';
          r = (if s \<noteq> [] \<and> hd s = CHR ''/''
               then (if length s - length stripped = 2 then ''//'' else ''/'')
               else '''')
      in \<lparr> root = r,
           names = filter (\<lambda>x. x \<noteq> [] \<and> x \<noteq> ''.'') (split CHR ''/'' stripped) \<rparr>)"

definition Path :: "pyval \<Rightarrow> error + path" where
  "Path v = (case v of PStr s \<Rightarrow> Inr (parse_path s) | _ \<Rightarrow> Inl TypeError)"

text \<open>\<open>str(p)\<close>.\<close>

definition path_str :: "path \<Rightarrow> string" where
  "path_str p =
     (if root p = [] \<and> names p = [] then ''.'' else root p @ join CHR ''/'' (names p))"

text \<open>\<open>p.name\<close>, \<open>p.suffix\<close>, \<open>p.stem\<close>, \<open>p.parent\<close> and \<open>p / key\<close>.\<close>

definition name :: "path \<Rightarrow> string" where
  "name p = (if names p = [] then [] else last (names p))"

definition suffix :: "path \<Rightarrow> string" where
  "suffix p =
     (let n = name p; i = rfind n CHR ''.''
      in if 0 < i \<and> i < int (length n) - 1 then drop (nat i) n else [])"

definition stem :: "path \<Rightarrow> string" where
  "stem p =
     (let n = name p; i = rfind n CHR ''.''
      in if 0 < i \<and> i < int (length n) - 1 then take (nat i) n else n)"

definition parent :: "path \<Rightarrow> path" where
  "parent p = p \<lparr> names := butlast (names p) \<rparr>"

definition truediv :: "path \<Rightarrow> string \<Rightarrow> path" where
  "truediv p key =
     (let k = parse_path key
      in if root k \<noteq> [] then k else \<lparr> root = root p, names = names p @ names k \<rparr>)"

section \<open>The interpreter and the operating system\<close>

text \<open>
  What \<open>_process_request\<close> takes from outside the sources, as parameters of the
  model:
  \<^item> \<open>str_lower\<close> is \<open>str.lower()\<close>, which follows the case mappings of Unicode;
  \<^item> \<open>os_stat\<close> is the outcome of \<open>os.stat\<close> on a path string: \<open>None\<close> when the call
    succeeds, otherwise the \<open>errno\<close> of the \<open>OSError\<close> it raises;
  \<^item> \<open>int_max_str_digits\<close> is \<open>sys.get_int_max_str_digits()\<close>, the largest number
    of digits an \<open>int\<close> may have when it is converted to text (\<open>0\<close> for no limit).
\<close>

record runtime =
  str_lower :: "string \<Rightarrow> string"
  os_stat :: "string \<Rightarrow> nat option"
  int_max_str_digits :: nat

text \<open>The \<open>errno\<close> values of Linux that are named below.\<close>

definition ENOENT :: nat where "ENOENT = 2"

definition EBADF :: nat where "EBADF = 9"

definition EACCES :: nat where "EACCES = 13"

definition ENOTDIR :: nat where "ENOTDIR = 20"

definition ENAMETOOLONG :: nat where "ENAMETOOLONG = 36"

definition ELOOP :: nat where "ELOOP = 40"

text \<open>
  \<open>p.exists()\<close> of \<open>pathlib\<close> in CPython 3.11: \<open>os.stat(str(p))\<close> is called; a
  \<open>ValueError\<close> (raised for a path that holds a NUL byte, before the system is
  asked) and an \<open>OSError\<close> whose \<open>errno\<close> is \<open>ENOENT\<close>, \<open>ENOTDIR\<close>, \<open>EBADF\<close> or
  \<open>ELOOP\<close> give \<open>False\<close>; any other \<open>OSError\<close> is raised again, so it leaves
  \<open>exists()\<close> as an exception.
\<close>

definition exists_path :: "runtime \<Rightarrow> path \<Rightarrow> error + bool" where
  "exists_path env p =
     (let s = path_str p
      in if CHR 0x00 \<in> set s then Inr False
         else (case os_stat env s of
                 None \<Rightarrow> Inr True
               | Some errno \<Rightarrow>
                   if errno \<in> {ENOENT, ENOTDIR, EBADF, ELOOP} then Inr False
                   else Inl (OSError errno)))"

text \<open>
  The text of a value, as an f-string builds it for \<open>{value}\<close>: the conversion of
  an \<open>int\<close> to decimal digits raises \<open>ValueError\<close> when a limit is set and the
  number has more digits than the limit; the text of a list or of a dictionary
  holds the text of its items; \<open>None\<close>, a \<open>bool\<close>, a \<open>float\<close> and a \<open>str\<close> always
  have a text. \<open>format_error\<close> is the exception raised, if any.
\<close>

fun over_digit_limit :: "nat \<Rightarrow> pyval \<Rightarrow> bool" where
  "over_digit_limit limit (PInt n) = (limit \<noteq> 0 \<and> 10 ^ limit \<le> \<bar>n\<bar>)"
| "over_digit_limit limit (PList xs) = list_ex (over_digit_limit limit) xs"
| "over_digit_limit limit (PDict kvs) = list_ex (\<lambda>kv. over_digit_limit limit (snd kv)) kvs"
| "over_digit_limit limit v = False"

definition format_error :: "runtime \<Rightarrow> pyval \<Rightarrow> error option" where
  "format_error env v =
     (if over_digit_limit (int_max_str_digits env) v then Some (ValueError IntMaxStrDigits)
      else None)"

text \<open>
  A runtime to evaluate the model on ASCII text. \<open>ascii_lower\<close> moves the letters
  \<open>A\<close> to \<open>Z\<close> (codes 65 to 90) to \<open>a\<close> to \<open>z\<close> and keeps every other byte, which is
  what \<open>str.lower()\<close> does to a string of ASCII characters.
\<close>

definition ascii_lower_char :: "char \<Rightarrow> char" where
  "ascii_lower_char c =
     (let n = (of_char c :: nat) in if 65 \<le> n \<and> n \<le> 90 then char_of (n + 32) else c)"

definition ascii_lower :: "string \<Rightarrow> string" where
  "ascii_lower s = map ascii_lower_char s"

text \<open>
  A file system that holds exactly the paths \<open>files\<close>: a path with a component of
  more than 255 bytes (\<open>NAME_MAX\<close>) fails with \<open>ENAMETOOLONG\<close>, any other path that
  is not in \<open>files\<close> with \<open>ENOENT\<close>.
\<close>

definition posix_stat :: "string set \<Rightarrow> string \<Rightarrow> nat option" where
  "posix_stat files s =
     (if list_ex (\<lambda>c. 255 < length c) (split CHR ''/'' s) then Some ENAMETOOLONG
      else if s \<in> files then None else Some ENOENT)"

text \<open>The limit on the digits of an \<open>int\<close> that CPython starts with.\<close>

definition default_max_str_digits :: nat where
  "default_max_str_digits = 4300"

definition ascii_runtime :: "string set \<Rightarrow> runtime" where
  "ascii_runtime files =
     \<lparr> str_lower = ascii_lower, os_stat = posix_stat files,
       int_max_str_digits = default_max_str_digits \<rparr>"

section \<open>The models\<close>

text \<open>
  The attributes that \<open>MeshRetopologyModel.__init__\<close> and
  \<open>UVUnwrappingModel.__init__\<close> hand to \<open>BaseModel.__init__\<close>, and the ones they
  set themselves. Both classes name their format lists alike, so the fields are
  written with the class name in front.
\<close>

record BaseModel =
  model_id :: string
  model_path :: string
  vram_requirement :: int
  feature_type :: string

record MeshRetopologyModel = BaseModel +
  supported_input_formats :: "string list"
  supported_output_formats :: "string list"
  target_vertex_count :: "int option"

record UVUnwrappingModel = BaseModel +
  supported_input_formats :: "string list"
  supported_output_formats :: "string list"
  distortion_threshold :: real

text \<open>\<open>formats or default\<close> for an \<open>Optional[List[str]]\<close> argument.\<close>

definition or_default :: "string list option \<Rightarrow> string list \<Rightarrow> string list" where
  "or_default formats dflt =
     (case formats of None \<Rightarrow> dflt | Some xs \<Rightarrow> if xs = [] then dflt else xs)"

definition MeshRetopologyModel_init ::
  "string \<Rightarrow> string \<Rightarrow> int \<Rightarrow> string list option \<Rightarrow> string list option \<Rightarrow> int option
     \<Rightarrow> MeshRetopologyModel" where
  "MeshRetopologyModel_init mid mpath vram ins outs tvc =
     \<lparr> model_id = mid, model_path = mpath, vram_requirement = vram,
       feature_type = ''mesh_retopology'',
       MeshRetopologyModel.supported_input_formats =
         or_default ins [''obj'', ''glb'', ''ply'', ''stl''],
       MeshRetopologyModel.supported_output_formats = or_default outs [''obj'', ''glb''],
       target_vertex_count = tvc \<rparr>"

definition UVUnwrappingModel_init ::
  "string \<Rightarrow> string \<Rightarrow> int \<Rightarrow> string list option \<Rightarrow> string list option \<Rightarrow> real
     \<Rightarrow> UVUnwrappingModel" where
  "UVUnwrappingModel_init mid mpath vram ins outs dt =
     \<lparr> model_id = mid, model_path = mpath, vram_requirement = vram,
       feature_type = ''uv_unwrapping'',
       UVUnwrappingModel.supported_input_formats = or_default ins [''obj'', ''glb''],
       UVUnwrappingModel.supported_output_formats = or_default outs [''obj'', ''glb''],
       distortion_threshold = dt \<rparr>"

section \<open>Processing a request\<close>

text \<open>
  \<open>input_format = mesh_path.suffix.lower().lstrip(".")\<close>, shared by both
  \<open>_process_request\<close> methods.
\<close>

definition input_format :: "runtime \<Rightarrow> path \<Rightarrow> string" where
  "input_format env mesh_path = lstrip (str_lower env (suffix mesh_path)) CHR ''.''"

text \<open>
  \<open>MeshRetopologyModel._process_request\<close>. The checks come in the order of the
  source; each \<open>raise\<close> is an \<open>Inl\<close>, and so is an exception that leaves
  \<open>Path(...)\<close>, \<open>mesh_path.exists()\<close> or the f-string of the logged message, which
  formats the path and the resolved \<open>target_vertex_count\<close>. The requested output
  format is tested for membership in a list of strings, which no value other than a
  \<open>str\<close> passes; the \<open>ValueError\<close> that leaves the \<open>raise\<close> of this test is
  \<open>UnsupportedOutputFormat\<close> with the value, also when the value has no text for
  the message.
\<close>

definition retopo_process_request ::
  "runtime \<Rightarrow> MeshRetopologyModel \<Rightarrow> (string \<rightharpoonup> pyval) \<Rightarrow> error + (string \<times> pyval) list" where
  "retopo_process_request env self inputs =
     (case inputs ''mesh_path'' of
        None \<Rightarrow> Inl (ValueError MeshPathRequired)
      | Some v \<Rightarrow>
         (case Path v of
            Inl e \<Rightarrow> Inl e
          | Inr mesh_path \<Rightarrow>
             (case exists_path env mesh_path of
                Inl e \<Rightarrow> Inl e
              | Inr found \<Rightarrow>
                 if \<not> found
                 then Inl (FileNotFoundError (path_str mesh_path))
                 else if input_format env mesh_path
                           \<notin> set (MeshRetopologyModel.supported_input_formats self)
                 then Inl (ValueError (UnsupportedInputFormat (input_format env mesh_path)))
                 else
                  (case dict_get inputs ''output_format'' (PStr ''obj'') of
                     PStr output_format \<Rightarrow>
                       if output_format
                            \<notin> set (MeshRetopologyModel.supported_output_formats self)
                       then Inl (ValueError (UnsupportedOutputFormat (PStr output_format)))
                       else
                         (let tvc = dict_get inputs ''target_vertex_count''
                                      (of_opt_int (target_vertex_count self))
                          in case format_error env tvc of
                               Some e \<Rightarrow> Inl e
                             | None \<Rightarrow> Inr
                            [(''output_mesh_path'',
                                PStr (path_str (truediv (parent mesh_path)
                                  (''retopo_'' @ stem mesh_path @ ''.'' @ output_format)))),
                             (''original_stats'',
                                PDict [(''vertices'', PInt 0), (''faces'', PInt 0)]),
                             (''output_stats'',
                                PDict [(''vertices'', py_or tvc (PInt 0)), (''faces'', PInt 0)]),
                             (''retopology_info'',
                                PDict [(''success'', PBool True),
                                       (''target_vertex_count'', tvc)])])
                   | other \<Rightarrow> Inl (ValueError (UnsupportedOutputFormat other))))))"

text \<open>
  \<open>UVUnwrappingModel._process_request\<close>, in the same way; its logged message
  formats the path and the resolved \<open>distortion_threshold\<close>.
\<close>

definition uv_process_request ::
  "runtime \<Rightarrow> UVUnwrappingModel \<Rightarrow> (string \<rightharpoonup> pyval) \<Rightarrow> error + (string \<times> pyval) list" where
  "uv_process_request env self inputs =
     (case inputs ''mesh_path'' of
        None \<Rightarrow> Inl (ValueError MeshPathRequired)
      | Some v \<Rightarrow>
         (case Path v of
            Inl e \<Rightarrow> Inl e
          | Inr mesh_path \<Rightarrow>
             (case exists_path env mesh_path of
                Inl e \<Rightarrow> Inl e
              | Inr found \<Rightarrow>
                 if \<not> found
                 then Inl (FileNotFoundError (path_str mesh_path))
                 else if input_format env mesh_path
                           \<notin> set (UVUnwrappingModel.supported_input_formats self)
                 then Inl (ValueError (UnsupportedInputFormat (input_format env mesh_path)))
                 else
                  (case dict_get inputs ''output_format'' (PStr ''obj'') of
                     PStr output_format \<Rightarrow>
                       if output_format \<notin> set (UVUnwrappingModel.supported_output_formats self)
                       then Inl (ValueError (UnsupportedOutputFormat (PStr output_format)))
                       else
                         (let dt = dict_get inputs ''distortion_threshold''
                                     (PFloat (distortion_threshold self));
                              pack_method = dict_get inputs ''pack_method'' (PStr ''blender'')
                          in case format_error env dt of
                               Some e \<Rightarrow> Inl e
                             | None \<Rightarrow> Inr
                            [(''output_mesh_path'',
                                PStr (path_str (truediv (parent mesh_path)
                                  (''uv_'' @ stem mesh_path @ ''.'' @ output_format)))),
                             (''packed_mesh_path'', PNone),
                             (''num_components'', PInt 0),
                             (''distortion'', PFloat 0),
                             (''uv_info'',
                                PDict [(''success'', PBool True),
                                       (''distortion_threshold'', dt),
                                       (''pack_method'', pack_method)])])
                   | other \<Rightarrow> Inl (ValueError (UnsupportedOutputFormat other))))))"

section \<open>Reading a result\<close>

text \<open>
  \<open>d[k]\<close> on a returned dictionary, and \<open>d[k][j]\<close> on a dictionary nested in it.
  A missing key (Python's \<open>KeyError\<close>) is \<open>None\<close>.
\<close>

definition getitem :: "(string \<times> pyval) list \<Rightarrow> string \<Rightarrow> pyval option" where
  "getitem d k = map_of d k"

definition getitem2 :: "(string \<times> pyval) list \<Rightarrow> string \<Rightarrow> string \<Rightarrow> pyval option" where
  "getitem2 d k j =
     (case map_of d k of Some (PDict kvs) \<Rightarrow> map_of kvs j | _ \<Rightarrow> None)"

section \<open>Well-formed paths\<close>

text \<open>
  What \<open>Path\<close> builds: a root that is empty, \<open>/\<close> or \<open>//\<close>, and components that
  are not empty, not \<open>.\<close> and hold no separator.
\<close>

definition component :: "string \<Rightarrow> bool" where
  "component x = (x \<noteq> [] \<and> x \<noteq> ''.'' \<and> CHR ''/'' \<notin> set x)"

definition wf_path :: "path \<Rightarrow> bool" where
  "wf_path p = (root p \<in> {[], ''/'', ''//''} \<and> list_all component (names p))"

section \<open>Introspection\<close>

text \<open>
  \<open>get_supported_formats\<close> and \<open>get_model_info\<close> are methods of an object that
  could be mutated, so each returns its value together with the model as it is
  after the call. A list of format names is the Python list of those strings.
\<close>

definition format_list :: "string list \<Rightarrow> pyval" where
  "format_list formats = PList (map PStr formats)"

definition retopo_get_supported_formats ::
  "MeshRetopologyModel \<Rightarrow> (string \<times> pyval) list \<times> MeshRetopologyModel" where
  "retopo_get_supported_formats self =
     ([(''input'', format_list (MeshRetopologyModel.supported_input_formats self)),
       (''output'', format_list (MeshRetopologyModel.supported_output_formats self))],
      self)"

definition uv_get_supported_formats ::
  "UVUnwrappingModel \<Rightarrow> (string \<times> pyval) list \<times> UVUnwrappingModel" where
  "uv_get_supported_formats self =
     ([(''input'', format_list (UVUnwrappingModel.supported_input_formats self)),
       (''output'', format_list (UVUnwrappingModel.supported_output_formats self))],
      self)"

text \<open>
  \<open>d.update(other)\<close>: each item of \<open>other\<close> in turn replaces the value of its key
  where the key is present and is appended otherwise.
\<close>

definition dict_update ::
  "(string \<times> pyval) list \<Rightarrow> (string \<times> pyval) list \<Rightarrow> (string \<times> pyval) list" where
  "dict_update d other = fold (\<lambda>(k, v). AList.update k v) other d"

text \<open>
  \<open>get_model_info\<close> starts from \<open>self.get_info()\<close>. That method belongs to
  \<open>BaseModel\<close> in \<open>core/models/base.py\<close>, which is not among the sources, so it is
  the parameter \<open>get_info\<close>: from the model to the dictionary it returns and the
  model after the call. The attribute written into the dictionary is read after
  that call.
\<close>

definition retopo_get_model_info ::
  "(MeshRetopologyModel \<Rightarrow> (string \<times> pyval) list \<times> MeshRetopologyModel)
     \<Rightarrow> MeshRetopologyModel \<Rightarrow> (string \<times> pyval) list \<times> MeshRetopologyModel" where
  "retopo_get_model_info get_info self =
     (let (info, self') = get_info self
      in (dict_update info
            [(''model_type'', PStr ''mesh_retopology''),
             (''description'', PStr ''Mesh retopology model for optimizing mesh topology''),
             (''target_vertex_count'', of_opt_int (target_vertex_count self')),
             (''capabilities'',
                PList [PStr ''Polygon reduction'', PStr ''Topology optimization''])],
          self'))"

definition uv_get_model_info ::
  "(UVUnwrappingModel \<Rightarrow> (string \<times> pyval) list \<times> UVUnwrappingModel)
     \<Rightarrow> UVUnwrappingModel \<Rightarrow> (string \<times> pyval) list \<times> UVUnwrappingModel" where
  "uv_get_model_info get_info self =
     (let (info, self') = get_info self
      in (dict_update info
            [(''model_type'', PStr ''uv_unwrapping''),
             (''description'',
                PStr ''UV unwrapping model for generating optimized UV coordinates''),
             (''distortion_threshold'', PFloat (distortion_threshold self')),
             (''capabilities'',
                PList [PStr ''Part-based unwrapping'', PStr ''Distortion minimization'',
                       PStr ''UV packing''])],
          self'))"

section \<open>The GPU resource tracker and the model lifecycle\<close>

text \<open>
  Modelled from the spec: the lifecycle status of a model (section 3, \<open>status\<close>);
  the class \<open>ModelStatus\<close> is imported from \<open>core/models/base.py\<close>, which is not
  among the sources.
\<close>

datatype ModelStatus = UNLOADED | LOADING | LOADED | UNLOADING | ERROR

text \<open>
  Modelled from the spec: a registered model as the registry sees it (section 3,
  Model): its declared VRAM requirement, its status and the GPU it is bound to
  while loaded. The registry module is not among the sources.
\<close>

record Model =
  vram_requirement :: nat
  status :: ModelStatus
  gpu :: "nat option"

text \<open>
  Modelled from the spec: the ledger of one device (section 3, GPU): total and
  allocated VRAM and the set of the ids of the resident models. The allocated
  amount is an integer, so that a decrement is never cut off at zero. The tracker
  module is not among the sources.
\<close>

record GPU =
  total_vram :: nat
  allocated_vram :: int
  resident_models :: "string set"

text \<open>
  Modelled from the spec: the state shared by the tracker and the registry
  (section 2): the devices by id and the registered models by id.
\<close>

record System =
  gpus :: "nat \<rightharpoonup> GPU"
  models :: "string \<rightharpoonup> Model"

text \<open>
  Modelled from the spec: the errors of section 7 that the tracker and the
  lifecycle operations raise; \<open>NotFoundError\<close> stands for an id that is not
  registered.
\<close>

datatype tracker_error = InsufficientVRAMError | LoadError | ConflictError | NotFoundError

text \<open>
  Modelled from the spec: the \<open>vram_requirement\<close> of a model id, read from the
  registry (section 3); an id that is not registered claims nothing.
\<close>

definition requirement :: "System \<Rightarrow> string \<Rightarrow> int" where
  "requirement sys mid =
     (case models sys mid of None \<Rightarrow> 0 | Some m \<Rightarrow> int (vram_requirement m))"


text \<open>
  Modelled from the spec: \<open>can_admit(gpu_id, vram_requirement)\<close> (section 4.2):
  true iff \<open>allocated_vram + vram_requirement \<le> total_vram\<close>.
\<close>

definition can_admit :: "System \<Rightarrow> nat \<Rightarrow> nat \<Rightarrow> bool" where
  "can_admit sys gid req =
     (case gpus sys gid of
        None \<Rightarrow> False
      | Some g \<Rightarrow> allocated_vram g + int req \<le> int (total_vram g))"

text \<open>
  Modelled from the spec: \<open>reserve(gpu_id, model_id, vram_requirement)\<close>
  (section 4.2): increments \<open>allocated_vram\<close> by the amount it is given and records
  residency; it fails with \<open>InsufficientVRAMError\<close> when \<open>can_admit\<close> is false for
  that amount. An operation returns the error it raises, if any, and the state it
  leaves.
\<close>

definition reserve :: "System \<Rightarrow> nat \<Rightarrow> string \<Rightarrow> nat \<Rightarrow> tracker_error option \<times> System" where
  "reserve sys gid mid req =
     (case gpus sys gid of
        None \<Rightarrow> (Some NotFoundError, sys)
      | Some g \<Rightarrow>
         if can_admit sys gid req
         then (None, sys \<lparr> gpus := (gpus sys)(gid \<mapsto>
                 g \<lparr> allocated_vram := allocated_vram g + int req,
                     resident_models := insert mid (resident_models g) \<rparr>) \<rparr>)
         else (Some InsufficientVRAMError, sys))"

text \<open>
  Modelled from the spec: \<open>release(gpu_id, model_id)\<close> (section 4.2): decrements
  \<open>allocated_vram\<close> by the model's requirement and removes residency; idempotent,
  so releasing a model that is not resident changes nothing.
\<close>

definition release :: "System \<Rightarrow> nat \<Rightarrow> string \<Rightarrow> tracker_error option \<times> System" where
  "release sys gid mid =
     (case gpus sys gid of
        None \<Rightarrow> (Some NotFoundError, sys)
      | Some g \<Rightarrow>
         if mid \<in> resident_models g
         then (None, sys \<lparr> gpus := (gpus sys)(gid \<mapsto>
                 g \<lparr> allocated_vram := allocated_vram g - requirement sys mid,
                     resident_models := resident_models g - {mid} \<rparr>) \<rparr>)
         else (None, sys))"

text \<open>
  Modelled from the spec: setting the status and the binding of a registered
  model, as the lifecycle transitions of section 4.1 do.
\<close>

definition set_status :: "System \<Rightarrow> string \<Rightarrow> ModelStatus \<Rightarrow> nat option \<Rightarrow> System" where
  "set_status sys mid st bound =
     (case models sys mid of
        None \<Rightarrow> sys
      | Some m \<Rightarrow> sys \<lparr> models := (models sys)(mid \<mapsto> m \<lparr> status := st, gpu := bound \<rparr>) \<rparr>)"

text \<open>
  Modelled from the spec: \<open>load(gpu_id)\<close> of a model, mediated by the tracker
  (sections 4.1 and 4.3). A model already \<open>LOADED\<close> on the same GPU is left as it
  is; one \<open>LOADED\<close> elsewhere gives \<open>ConflictError\<close>. Otherwise its requirement is
  reserved on the GPU (an admission failure is passed on), and the artifact is
  materialised: on success the model is \<open>LOADED\<close> there, on failure (\<open>ok\<close> false)
  the claim is released, the model moves to \<open>ERROR\<close> and \<open>LoadError\<close> is raised.
\<close>

definition load :: "System \<Rightarrow> string \<Rightarrow> nat \<Rightarrow> bool \<Rightarrow> tracker_error option \<times> System" where
  "load sys mid gid ok =
     (case models sys mid of
        None \<Rightarrow> (Some NotFoundError, sys)
      | Some m \<Rightarrow>
         if status m = LOADED
         then (if gpu m = Some gid then (None, sys) else (Some ConflictError, sys))
         else
          (case reserve sys gid mid (vram_requirement m) of
             (Some e, sys') \<Rightarrow> (Some e, sys')
           | (None, sys') \<Rightarrow>
              if ok then (None, set_status sys' mid LOADED (Some gid))
              else (Some LoadError, set_status (snd (release sys' gid mid)) mid ERROR None)))"

text \<open>
  Modelled from the spec: \<open>unload()\<close> of a model (section 4.1): a \<open>LOADED\<close> model
  releases its VRAM claim and becomes \<open>UNLOADED\<close>; otherwise nothing changes.
\<close>

definition unload :: "System \<Rightarrow> string \<Rightarrow> tracker_error option \<times> System" where
  "unload sys mid =
     (case models sys mid of
        None \<Rightarrow> (Some NotFoundError, sys)
      | Some m \<Rightarrow>
         if status m = LOADED
         then (case gpu m of
                 None \<Rightarrow> (None, set_status sys mid UNLOADED None)
               | Some gid \<Rightarrow> (None, set_status (snd (release sys gid mid)) mid UNLOADED None))
         else (None, sys))"

text \<open>
  Modelled from the spec: the operations of the claim, one step of the system and
  a run of any sequence of operations. An operation that raises leaves the state
  it returns, and the run goes on.
\<close>

datatype operation =
    Reserve nat string nat
  | Release nat string
  | Load string nat bool
  | Unload string

fun step :: "operation \<Rightarrow> System \<Rightarrow> tracker_error option \<times> System" where
  "step (Reserve gid mid req) sys = reserve sys gid mid req"
| "step (Release gid mid) sys = release sys gid mid"
| "step (Load mid gid ok) sys = load sys mid gid ok"
| "step (Unload mid) sys = unload sys mid"

definition run :: "operation list \<Rightarrow> System \<Rightarrow> System" where
  "run ops sys = fold (\<lambda>op s. snd (step op s)) ops sys"






section \<open>The client script: floating-point numbers\<close>

text \<open>
  A Python \<open>float\<close> is an IEEE 754 binary64 number. Each one is a rational, and
  an arithmetic operation returns the exact result rounded to the nearest number
  with 53 significant bits, ties going to the even one. The exponent is not
  bounded here: the dimensions of an image are below \<open>2 ^ 31\<close>, so no value of
  \<open>upload_image\<close> leaves the normal range.
\<close>

definition round_half_even :: "rat \<Rightarrow> int" where
  "round_half_even x =
     (let f = \<lfloor>x\<rfloor>; d = x - of_int f
      in if d < 1 / 2 then f else if 1 / 2 < d then f + 1 else if even f then f else f + 1)"

text \<open>The exponent \<open>e\<close> of a positive \<open>x\<close>: \<open>2 ^ e \<le> x < 2 ^ (e + 1)\<close>.\<close>

definition exponent :: "rat \<Rightarrow> int" where
  "exponent x =
     (let (p, q) = quotient_of x;
          d = int (floorlog 2 (nat p)) - int (floorlog 2 (nat q))
      in if 2 powi d \<le> x then d else d - 1)"

definition round_double :: "rat \<Rightarrow> rat" where
  "round_double x =
     (if x = 0 then 0
      else let k = exponent \<bar>x\<bar> - 52
           in sgn x * of_int (round_half_even (\<bar>x\<bar> / 2 powi k)) * 2 powi k)"

text \<open>
  \<open>a / b\<close> on two \<open>int\<close>s (correctly rounded true division), \<open>float(n)\<close> as in
  \<open>n * x\<close> with an \<open>int\<close> and a \<open>float\<close>, \<open>x * y\<close>, and \<open>int(x)\<close>, which truncates
  towards zero.
\<close>

definition true_div :: "int \<Rightarrow> int \<Rightarrow> rat" where
  "true_div a b = round_double (of_int a / of_int b)"

definition float_of_int :: "int \<Rightarrow> rat" where
  "float_of_int n = round_double (of_int n)"

definition float_mul :: "rat \<Rightarrow> rat \<Rightarrow> rat" where
  "float_mul x y = round_double (x * y)"

definition int_of_float :: "rat \<Rightarrow> int" where
  "int_of_float x = (if 0 \<le> x then \<lfloor>x\<rfloor> else \<lceil>x\<rceil>)"

section \<open>The client script: \<open>upload_image\<close>\<close>

text \<open>
  An image as \<open>upload_image\<close> sees it: \<open>img.size\<close>, the pair of its width and
  height, and its mode (\<open>RGB\<close>, \<open>RGBA\<close>, \<open>L\<close>, ...).
\<close>

record image =
  img_size :: "int \<times> int"
  mode :: string

text \<open>
  The exceptions of \<open>upload_image\<close>: the division by a zero dimension, and what
  the two calls into Pillow raise, \<open>ValueError\<close> from \<open>resize\<close> for the size it is
  given and \<open>OSError\<close> from \<open>save\<close> for the mode of the image.
\<close>

datatype client_error =
    ZeroDivisionError
  | ResizeValueError "int \<times> int"
  | SaveOSError string

text \<open>
  Pillow is not among the sources; the script depends on two of its checks.
  \<open>Image.resize\<close> raises \<open>ValueError\<close> (height and width must be > 0) when a side of
  the new size is below 1, and otherwise returns an image of that size and of the
  same mode. \<open>Image.save\<close> with \<open>format='JPEG'\<close> raises \<open>OSError\<close> (cannot write mode
  as JPEG) unless the mode is one the JPEG encoder writes.
\<close>

definition resize :: "image \<Rightarrow> int \<times> int \<Rightarrow> client_error + image" where
  "resize img sz =
     (if fst sz < 1 \<or> snd sz < 1 then Inl (ResizeValueError sz)
      else Inr (img \<lparr> img_size := sz \<rparr>))"

definition save_jpeg :: "image \<Rightarrow> client_error option" where
  "save_jpeg img =
     (if mode img \<in> {''1'', ''L'', ''RGB'', ''RGBX'', ''CMYK'', ''YCbCr''} then None
      else Some (SaveOSError (mode img)))"

text \<open>
  What \<open>upload_image\<close> puts into the request: the file as it is on disk, or the
  image resized to \<open>new_size\<close> and encoded again as JPEG. A zero dimension makes
  \<open>2048 / width\<close> or \<open>2048 / height\<close> raise \<open>ZeroDivisionError\<close>; an exception of
  \<open>resize\<close> or of \<open>save\<close> leaves the function before anything is sent.
\<close>

datatype upload = Original | Resized image

definition resize_ratio :: "int \<Rightarrow> int \<Rightarrow> rat" where
  "resize_ratio width height = min (true_div 2048 width) (true_div 2048 height)"

definition new_size :: "int \<Rightarrow> int \<Rightarrow> int \<times> int" where
  "new_size width height =
     (let ratio = resize_ratio width height
      in (int_of_float (float_mul (float_of_int width) ratio),
          int_of_float (float_mul (float_of_int height) ratio)))"

definition upload_image :: "image \<Rightarrow> client_error + upload" where
  "upload_image img =
     (let (width, height) = img_size img
      in if width > 2048 \<or> height > 2048
         then (if width = 0 \<or> height = 0 then Inl ZeroDivisionError
               else (case resize img (new_size width height) of
                       Inl e \<Rightarrow> Inl e
                     | Inr resized \<Rightarrow>
                        (case save_jpeg resized of
                           Some e \<Rightarrow> Inl e
                         | None \<Rightarrow> Inr (Resized resized))))
         else Inr Original)"

section \<open>Evaluation on concrete inputs\<close>

lemmas string_defs =
  ascii_lower_def ascii_lower_char_def lstrip_def rfind_def char_of_def bit_Suc_0_iff

lemmas path_defs =
  Path_def parse_path_def path_str_def name_def suffix_def stem_def parent_def truediv_def
  input_format_def Let_def

lemmas runtime_defs =
  ascii_runtime_def posix_stat_def exists_path_def format_error_def
  ENOENT_def EBADF_def EACCES_def ENOTDIR_def ENAMETOOLONG_def ELOOP_def

lemmas model_defs =
  MeshRetopologyModel_init_def UVUnwrappingModel_init_def or_default_def dict_get_def
  py_or_def of_opt_int_def

text \<open>An \<open>int\<close> below 10000 is within the default limit of digits.\<close>

lemma small_int_text:
  fixes n :: int
  assumes "n < 10000"
  shows "(10 ^ default_max_str_digits \<le> n) = False"
proof -
  have "4 \<le> default_max_str_digits"
    by (simp add: default_max_str_digits_def)
  then have "(10::int) ^ 4 \<le> 10 ^ default_max_str_digits"
    by (intro power_increasing) simp_all
  then have "(10000::int) \<le> 10 ^ default_max_str_digits"
    by simp
  with assms show ?thesis
    by simp
qed

lemma default_limit_set: "default_max_str_digits \<noteq> 0"
  by (simp add: default_max_str_digits_def)

section \<open>Facts about strings\<close>

lemma rfind_last:
  assumes "c \<notin> set ys"
  shows "rfind (xs @ c # ys) c = int (length xs)"
proof -
  have "takeWhile (\<lambda>x. x \<noteq> c) (rev ys @ c # rev xs) = rev ys"
    using assms by (subst takeWhile_append2) auto
  then show ?thesis by (simp add: rfind_def)
qed

lemma rfind_absent: "c \<notin> set s \<Longrightarrow> rfind s c = - 1"
  by (simp add: rfind_def)

lemma suffix_cases:
  "suffix p = [] \<or> (\<exists>ext. suffix p = CHR ''.'' # ext \<and> ext \<noteq> [] \<and> CHR ''.'' \<notin> set ext)"
proof (cases "CHR ''.'' \<in> set (name p)")
  case False
  then show ?thesis by (simp add: suffix_def rfind_absent)
next
  case True
  then obtain xs ys where n: "name p = xs @ CHR ''.'' # ys" and ys: "CHR ''.'' \<notin> set ys"
    by (meson split_list_last)
  have "rfind (name p) CHR ''.'' = int (length xs)"
    unfolding n using ys by (rule rfind_last)
  then show ?thesis using n ys by (auto simp add: suffix_def)
qed

section \<open>Facts about paths\<close>

lemma split_no_sep: "c \<notin> set s \<Longrightarrow> split c s = [s]"
  by (induction s) auto

lemma split_sep_free: "x \<in> set (split c s) \<Longrightarrow> c \<notin> set x"
  by (induction s arbitrary: x) (auto split: if_splits list.splits)

lemma split_append: "c \<notin> set x \<Longrightarrow> split c (x @ c # s) = x # split c s"
  by (induction x) (auto split: list.splits)

lemma split_join:
  assumes "ns \<noteq> []" and "\<forall>x\<in>set ns. c \<notin> set x"
  shows "split c (join c ns) = ns"
  using assms
proof (induction c ns rule: join.induct)
  case (1 c)
  then show ?case by simp
next
  case (2 c x)
  then show ?case by (simp add: split_no_sep)
next
  case (3 c x y ys)
  then show ?case by (simp add: split_append)
qed

lemma component_head: "component x \<Longrightarrow> hd x \<noteq> CHR ''/''"
  by (cases x) (auto simp add: component_def)

lemma join_head:
  assumes "list_all component ns"
  shows "join CHR ''/'' ns = [] \<or> hd (join CHR ''/'' ns) \<noteq> CHR ''/''"
proof (cases ns)
  case Nil
  then show ?thesis by simp
next
  case (Cons x xs)
  then have x: "x \<noteq> []" "hd x \<noteq> CHR ''/''"
    using assms component_head [of x] by (auto simp add: component_def)
  show ?thesis
  proof (cases xs)
    case Nil
    with Cons x show ?thesis by simp
  next
    case (Cons y ys)
    with \<open>ns = x # xs\<close> x show ?thesis by simp
  qed
qed

lemma lstrip_no_lead: "s = [] \<or> hd s \<noteq> c \<Longrightarrow> lstrip s c = s"
  by (cases s) (auto simp add: lstrip_def)

lemma parse_path_names: "list_all component (names (parse_path s))"
  by (auto simp add: parse_path_def Let_def list_all_iff component_def dest: split_sep_free)

lemma wf_parse_path: "wf_path (parse_path s)"
  by (simp add: wf_path_def parse_path_names) (simp add: parse_path_def Let_def)

lemma filter_components: "list_all component ns \<Longrightarrow> filter (\<lambda>x. x \<noteq> [] \<and> x \<noteq> ''.'') ns = ns"
  by (induction ns) (auto simp add: component_def)

lemma names_parse_join:
  assumes "list_all component ns"
  shows "filter (\<lambda>x. x \<noteq> [] \<and> x \<noteq> ''.'') (split CHR ''/'' (join CHR ''/'' ns)) = ns"
proof (cases ns)
  case Nil
  then show ?thesis by simp
next
  case (Cons a as)
  then have "split CHR ''/'' (join CHR ''/'' ns) = ns"
    using assms by (intro split_join) (auto simp add: list_all_iff component_def)
  then show ?thesis using assms by (simp add: filter_components)
qed

lemma parse_path_str:
  assumes "wf_path p"
  shows "parse_path (path_str p) = p"
proof -
  let ?j = "join CHR ''/'' (names p)"
  have comps: "list_all component (names p)"
    using assms by (simp add: wf_path_def)
  have head: "?j = [] \<or> hd ?j \<noteq> CHR ''/''"
    using comps by (rule join_head)
  have nm: "filter (\<lambda>x. x \<noteq> [] \<and> x \<noteq> ''.'') (split CHR ''/'' ?j) = names p"
    using comps by (rule names_parse_join)
  have strip: "lstrip ?j CHR ''/'' = ?j"
    using head by (rule lstrip_no_lead)
  consider "root p = []" | "root p = ''/''" | "root p = ''//''"
    using assms by (auto simp add: wf_path_def)
  then show ?thesis
  proof cases
    case 1
    show ?thesis
    proof (cases "names p = []")
      case True
      with 1 show ?thesis
        by (simp add: path_str_def parse_path_def lstrip_def)
    next
      case False
      then have "?j \<noteq> []"
        using nm by auto
      with 1 False head nm strip show ?thesis
        by (simp add: path_str_def parse_path_def Let_def)
    qed
  next
    case 2
    have "lstrip (''/'' @ ?j) CHR ''/'' = ?j"
      using strip by (simp add: lstrip_def)
    with 2 nm show ?thesis
      by (simp add: path_str_def parse_path_def Let_def)
  next
    case 3
    have "lstrip (''//'' @ ?j) CHR ''/'' = ?j"
      using strip by (simp add: lstrip_def)
    with 3 nm show ?thesis
      by (simp add: path_str_def parse_path_def Let_def)
  qed
qed

lemma parse_component:
  assumes "component key"
  shows "parse_path key = \<lparr> root = [], names = [key] \<rparr>"
proof -
  have "key \<noteq> []" "hd key \<noteq> CHR ''/''" "CHR ''/'' \<notin> set key" "key \<noteq> ''.''"
    using assms component_head [of key] by (auto simp add: component_def)
  then show ?thesis
    by (simp add: parse_path_def Let_def lstrip_no_lead split_no_sep)
qed

lemma truediv_component:
  assumes "component key"
  shows "truediv p key = \<lparr> root = root p, names = names p @ [key] \<rparr>"
  by (simp add: truediv_def parse_component [OF assms])

lemma wf_parent: "wf_path p \<Longrightarrow> wf_path (parent p)"
  by (auto simp add: wf_path_def parent_def list_all_iff dest: in_set_butlastD)

lemma wf_truediv: "wf_path p \<Longrightarrow> component key \<Longrightarrow> wf_path (truediv p key)"
  by (simp add: truediv_component wf_path_def)

lemma parent_truediv:
  "component key \<Longrightarrow> parent (truediv (parent p) key) = parent p"
  by (simp add: truediv_component parent_def)

lemma name_truediv: "component key \<Longrightarrow> name (truediv p key) = key"
  by (simp add: truediv_component name_def)

lemma name_sep_free: "CHR ''/'' \<notin> set (name (parse_path s))"
proof (cases "names (parse_path s) = []")
  case True
  then show ?thesis by (simp add: name_def)
next
  case False
  then have "last (names (parse_path s)) \<in> set (names (parse_path s))"
    by simp
  then have "component (last (names (parse_path s)))"
    using parse_path_names [of s] by (simp add: list_all_iff)
  with False show ?thesis by (simp add: name_def component_def)
qed

lemma stem_sep_free: "CHR ''/'' \<notin> set (stem (parse_path s))"
  using name_sep_free [of s] by (auto simp add: stem_def Let_def dest: in_set_takeD)

lemma output_name_component:
  assumes "CHR ''/'' \<notin> set fmt" and "CHR ''/'' \<notin> set pre" and "pre \<noteq> []" and "pre \<noteq> ''.''"
    and "hd pre \<noteq> CHR ''.''"
  shows "component (pre @ stem (parse_path s) @ ''.'' @ fmt)"
proof -
  have "pre @ stem (parse_path s) @ ''.'' @ fmt \<noteq> ''.''"
    using assms(3,5) by (cases pre) auto
  then show ?thesis
    using assms stem_sep_free [of s] by (simp add: component_def)
qed

lemma output_path:
  assumes "component key"
  shows "parse_path (path_str (truediv (parent (parse_path s)) key))
           = truediv (parent (parse_path s)) key"
    and "parent (truediv (parent (parse_path s)) key) = parent (parse_path s)"
    and "name (truediv (parent (parse_path s)) key) = key"
proof -
  have "wf_path (truediv (parent (parse_path s)) key)"
    using assms by (intro wf_truediv wf_parent wf_parse_path)
  then show "parse_path (path_str (truediv (parent (parse_path s)) key))
           = truediv (parent (parse_path s)) key"
    by (rule parse_path_str)
  show "parent (truediv (parent (parse_path s)) key) = parent (parse_path s)"
    using assms by (rule parent_truediv)
  show "name (truediv (parent (parse_path s)) key) = key"
    using assms by (rule name_truediv)
qed

lemma suffix_of_name:
  assumes "name p = pre @ ''.'' @ fmt" and "pre \<noteq> []" and "fmt \<noteq> []"
    and "CHR ''.'' \<notin> set fmt"
  shows "suffix p = ''.'' @ fmt"
proof -
  have "rfind (pre @ CHR ''.'' # fmt) CHR ''.'' = int (length pre)"
    using assms(4) by (rule rfind_last)
  then show ?thesis
    using assms by (simp add: suffix_def)
qed

lemma output_location:
  assumes "CHR ''/'' \<notin> set fmt" and "CHR ''/'' \<notin> set pre" and "pre \<noteq> []"
    and "hd pre \<noteq> CHR ''.''"
    and out_def: "out = path_str (truediv (parent (parse_path s))
                     (pre @ stem (parse_path s) @ ''.'' @ fmt))"
  shows "parent (parse_path out) = parent (parse_path s)"
    and "name (parse_path out) = pre @ stem (parse_path s) @ ''.'' @ fmt"
    and "fmt \<noteq> [] \<and> CHR ''.'' \<notin> set fmt \<longrightarrow> suffix (parse_path out) = ''.'' @ fmt"
proof -
  let ?key = "pre @ stem (parse_path s) @ ''.'' @ fmt"
  have "pre \<noteq> ''.''"
    using assms(4) by auto
  then have key: "component ?key"
    using assms(1-4) by (intro output_name_component)
  have parsed: "parse_path out = truediv (parent (parse_path s)) ?key"
    unfolding out_def using key by (rule output_path(1))
  show "parent (parse_path out) = parent (parse_path s)"
    unfolding parsed using key by (rule output_path(2))
  show nm: "name (parse_path out) = ?key"
    unfolding parsed using key by (rule output_path(3))
  show "fmt \<noteq> [] \<and> CHR ''.'' \<notin> set fmt \<longrightarrow> suffix (parse_path out) = ''.'' @ fmt"
  proof
    assume "fmt \<noteq> [] \<and> CHR ''.'' \<notin> set fmt"
    moreover have "name (parse_path out) = (pre @ stem (parse_path s)) @ ''.'' @ fmt"
      using nm by simp
    moreover have "pre @ stem (parse_path s) \<noteq> []"
      using assms(3) by simp
    ultimately show "suffix (parse_path out) = ''.'' @ fmt"
      by (intro suffix_of_name) auto
  qed
qed

section \<open>Outcome of a request\<close>

text \<open>
  The result of each method once the checks have passed and the logged message is
  built, and the conditions under which it raises \<open>ValueError\<close> or returns.
\<close>

lemma format_error_cases:
  "format_error env v = None \<or> format_error env v = Some (ValueError IntMaxStrDigits)"
  by (simp add: format_error_def)

lemma exists_path_error:
  assumes "exists_path env p = Inl e"
  shows "\<exists>errno. e = OSError errno"
  using assms by (auto simp add: exists_path_def Let_def split: if_splits option.splits)

lemma exists_path_value_error [simp]: "exists_path env p \<noteq> Inl (ValueError e)"
  using exists_path_error [of env p "ValueError e"] by auto

lemma retopo_process_request_result:
  assumes "inputs ''mesh_path'' = Some (PStr s)"
    and "exists_path env (parse_path s) = Inr True"
    and "input_format env (parse_path s) \<in> set (MeshRetopologyModel.supported_input_formats rm)"
    and "dict_get inputs ''output_format'' (PStr ''obj'') = PStr fmt"
    and "fmt \<in> set (MeshRetopologyModel.supported_output_formats rm)"
    and "format_error env
           (dict_get inputs ''target_vertex_count'' (of_opt_int (target_vertex_count rm))) = None"
  shows "retopo_process_request env rm inputs = Inr
     [(''output_mesh_path'',
         PStr (path_str (truediv (parent (parse_path s))
           (''retopo_'' @ stem (parse_path s) @ ''.'' @ fmt)))),
      (''original_stats'', PDict [(''vertices'', PInt 0), (''faces'', PInt 0)]),
      (''output_stats'',
         PDict [(''vertices'',
                  py_or (dict_get inputs ''target_vertex_count''
                           (of_opt_int (target_vertex_count rm))) (PInt 0)),
                (''faces'', PInt 0)]),
      (''retopology_info'',
         PDict [(''success'', PBool True),
                (''target_vertex_count'',
                  dict_get inputs ''target_vertex_count''
                    (of_opt_int (target_vertex_count rm)))])]"
  using assms by (simp add: retopo_process_request_def Path_def Let_def)

lemma uv_process_request_result:
  assumes "inputs ''mesh_path'' = Some (PStr s)"
    and "exists_path env (parse_path s) = Inr True"
    and "input_format env (parse_path s) \<in> set (UVUnwrappingModel.supported_input_formats um)"
    and "dict_get inputs ''output_format'' (PStr ''obj'') = PStr fmt"
    and "fmt \<in> set (UVUnwrappingModel.supported_output_formats um)"
    and "format_error env
           (dict_get inputs ''distortion_threshold'' (PFloat (distortion_threshold um))) = None"
  shows "uv_process_request env um inputs = Inr
     [(''output_mesh_path'',
         PStr (path_str (truediv (parent (parse_path s))
           (''uv_'' @ stem (parse_path s) @ ''.'' @ fmt)))),
      (''packed_mesh_path'', PNone),
      (''num_components'', PInt 0),
      (''distortion'', PFloat 0),
      (''uv_info'',
         PDict [(''success'', PBool True),
                (''distortion_threshold'',
                  dict_get inputs ''distortion_threshold'' (PFloat (distortion_threshold um))),
                (''pack_method'', dict_get inputs ''pack_method'' (PStr ''blender''))])]"
  using assms by (simp add: uv_process_request_def Path_def Let_def)



lemma retopo_returns_iff:
  "(\<exists>r. retopo_process_request env rm inputs = Inr r) \<longleftrightarrow>
     (\<exists>s. inputs ''mesh_path'' = Some (PStr s) \<and> exists_path env (parse_path s) = Inr True \<and>
        input_format env (parse_path s)
          \<in> set (MeshRetopologyModel.supported_input_formats rm) \<and>
        dict_get inputs ''output_format'' (PStr ''obj'')
          \<in> PStr ` set (MeshRetopologyModel.supported_output_formats rm) \<and>
        format_error env
          (dict_get inputs ''target_vertex_count'' (of_opt_int (target_vertex_count rm)))
          = None)"
  by (auto simp add: retopo_process_request_def Path_def Let_def
      split: option.splits pyval.splits sum.splits)

lemma uv_returns_iff:
  "(\<exists>r. uv_process_request env um inputs = Inr r) \<longleftrightarrow>
     (\<exists>s. inputs ''mesh_path'' = Some (PStr s) \<and> exists_path env (parse_path s) = Inr True \<and>
        input_format env (parse_path s) \<in> set (UVUnwrappingModel.supported_input_formats um) \<and>
        dict_get inputs ''output_format'' (PStr ''obj'')
          \<in> PStr ` set (UVUnwrappingModel.supported_output_formats um) \<and>
        format_error env
          (dict_get inputs ''distortion_threshold'' (PFloat (distortion_threshold um)))
          = None)"
  by (auto simp add: uv_process_request_def Path_def Let_def
      split: option.splits pyval.splits sum.splits)

section \<open>A missing input file\<close>

text \<open>
  Claim C2, as the code has it. \<open>mesh_path.exists()\<close> returns \<open>False\<close> exactly when
  the path holds a NUL byte or \<open>os.stat\<close> fails with \<open>ENOENT\<close>, \<open>ENOTDIR\<close>, \<open>EBADF\<close>
  or \<open>ELOOP\<close>. When \<open>inputs\<close> holds a \<open>mesh_path\<close> string for which it returns
  \<open>False\<close>, \<open>_process_request\<close> of \<open>MeshRetopologyModel\<close> and of
  \<open>UVUnwrappingModel\<close> raises \<open>FileNotFoundError\<close> for that path, whatever the
  file's extension, the requested output format, the other inputs and the model's
  attributes are; in particular it returns no result. When \<open>os.stat\<close> fails with
  any other \<open>errno\<close>, \<open>exists()\<close> raises that \<open>OSError\<close>, and \<open>_process_request\<close>
  raises it in place of \<open>FileNotFoundError\<close>.
\<close>

theorem process_request_file_not_found:
  assumes "inputs ''mesh_path'' = Some (PStr s)"
  shows "(exists_path env (parse_path s) = Inr False
            \<longleftrightarrow> (CHR 0x00 \<in> set (path_str (parse_path s))
                 \<or> (\<exists>errno. os_stat env (path_str (parse_path s)) = Some errno
                       \<and> errno \<in> {ENOENT, ENOTDIR, EBADF, ELOOP})))
       \<and> (exists_path env (parse_path s) = Inr False
            \<longrightarrow> retopo_process_request env rm inputs
                  = Inl (FileNotFoundError (path_str (parse_path s)))
              \<and> uv_process_request env um inputs
                  = Inl (FileNotFoundError (path_str (parse_path s))))
       \<and> (\<forall>errno. CHR 0x00 \<notin> set (path_str (parse_path s))
              \<and> os_stat env (path_str (parse_path s)) = Some errno
              \<and> errno \<notin> {ENOENT, ENOTDIR, EBADF, ELOOP}
            \<longrightarrow> retopo_process_request env rm inputs = Inl (OSError errno)
              \<and> uv_process_request env um inputs = Inl (OSError errno))"
proof (intro conjI allI impI)
  show "exists_path env (parse_path s) = Inr False
      \<longleftrightarrow> (CHR 0x00 \<in> set (path_str (parse_path s))
           \<or> (\<exists>errno. os_stat env (path_str (parse_path s)) = Some errno
                 \<and> errno \<in> {ENOENT, ENOTDIR, EBADF, ELOOP}))"
    by (auto simp add: exists_path_def Let_def split: option.splits)
next
  assume "exists_path env (parse_path s) = Inr False"
  with assms show "retopo_process_request env rm inputs
      = Inl (FileNotFoundError (path_str (parse_path s)))"
    by (simp add: retopo_process_request_def Path_def)
next
  assume "exists_path env (parse_path s) = Inr False"
  with assms show "uv_process_request env um inputs
      = Inl (FileNotFoundError (path_str (parse_path s)))"
    by (simp add: uv_process_request_def Path_def)
next
  fix errno
  assume "CHR 0x00 \<notin> set (path_str (parse_path s))
      \<and> os_stat env (path_str (parse_path s)) = Some errno
      \<and> errno \<notin> {ENOENT, ENOTDIR, EBADF, ELOOP}"
  then have raised: "exists_path env (parse_path s) = Inl (OSError errno)"
    by (simp add: exists_path_def Let_def)
  from assms raised show "retopo_process_request env rm inputs = Inl (OSError errno)"
    by (simp add: retopo_process_request_def Path_def)
  from assms raised show "uv_process_request env um inputs = Inl (OSError errno)"
    by (simp add: uv_process_request_def Path_def)
qed

theorem process_request_file_not_found_witness:
  "retopo_process_request (ascii_runtime {''assets/typical_creature_furry.obj''})
       (MeshRetopologyModel_init ''fastmesh'' ''pretrained'' 4096 None None None)
       [''mesh_path'' \<mapsto> PStr ''nonexistent_mesh.xyz'', ''output_format'' \<mapsto> PStr ''invalid_format'']
     = Inl (FileNotFoundError ''nonexistent_mesh.xyz'')
   \<and> uv_process_request (ascii_runtime {''assets/typical_creature_furry.obj''})
       (UVUnwrappingModel_init ''partuv'' ''pretrained'' 4096 None None 1.25)
       [''mesh_path'' \<mapsto> PStr ''nonexistent_mesh.xyz'', ''output_format'' \<mapsto> PStr ''invalid_format'']
     = Inl (FileNotFoundError ''nonexistent_mesh.xyz'')
   \<and> retopo_process_request
       (ascii_runtime {} \<lparr> os_stat := \<lambda>s. if s = ''locked/mesh.obj'' then Some EACCES
                                         else Some ENOENT \<rparr>)
       (MeshRetopologyModel_init ''fastmesh'' ''pretrained'' 4096 None None None)
       [''mesh_path'' \<mapsto> PStr ''locked/mesh.obj'']
     = Inl (OSError EACCES)
   \<and> uv_process_request
       (ascii_runtime {} \<lparr> os_stat := \<lambda>s. if s = ''locked/mesh.obj'' then Some EACCES
                                         else Some ENOENT \<rparr>)
       (UVUnwrappingModel_init ''partuv'' ''pretrained'' 4096 None None 1.25)
       [''mesh_path'' \<mapsto> PStr ''locked/mesh.obj'']
     = Inl (OSError EACCES)"
proof -
  let ?env = "ascii_runtime {''assets/typical_creature_furry.obj''}"
  let ?inputs = "[''mesh_path'' \<mapsto> PStr ''nonexistent_mesh.xyz'',
                  ''output_format'' \<mapsto> PStr ''invalid_format'']"
  have present: "?inputs ''mesh_path'' = Some (PStr ''nonexistent_mesh.xyz'')"
    by simp
  have missing: "exists_path ?env (parse_path ''nonexistent_mesh.xyz'') = Inr False"
    by (simp add: runtime_defs path_defs string_defs)
  have shown: "path_str (parse_path ''nonexistent_mesh.xyz'') = ''nonexistent_mesh.xyz''"
    by (simp add: path_defs string_defs)
  from process_request_file_not_found [where inputs = "?inputs" and env = "?env", OF present,
      THEN conjunct2, THEN conjunct1, THEN mp, OF missing] shown
  have not_found: "retopo_process_request ?env
        (MeshRetopologyModel_init ''fastmesh'' ''pretrained'' 4096 None None None) ?inputs
      = Inl (FileNotFoundError ''nonexistent_mesh.xyz'')
    \<and> uv_process_request ?env
        (UVUnwrappingModel_init ''partuv'' ''pretrained'' 4096 None None 1.25) ?inputs
      = Inl (FileNotFoundError ''nonexistent_mesh.xyz'')"
    by simp
  let ?denied = "ascii_runtime {} \<lparr> os_stat := \<lambda>s. if s = ''locked/mesh.obj'' then Some EACCES
                                               else Some ENOENT \<rparr>"
  let ?locked = "[''mesh_path'' \<mapsto> PStr ''locked/mesh.obj'']"
  have present': "?locked ''mesh_path'' = Some (PStr ''locked/mesh.obj'')"
    by simp
  have shown': "path_str (parse_path ''locked/mesh.obj'') = ''locked/mesh.obj''"
    by (simp add: path_defs string_defs)
  have denied: "CHR 0x00 \<notin> set (path_str (parse_path ''locked/mesh.obj''))
      \<and> os_stat ?denied (path_str (parse_path ''locked/mesh.obj'')) = Some EACCES
      \<and> EACCES \<notin> {ENOENT, ENOTDIR, EBADF, ELOOP}"
    unfolding shown' by (simp add: runtime_defs)
  note raised = process_request_file_not_found [where inputs = "?locked" and env = "?denied"
      and rm = "MeshRetopologyModel_init ''fastmesh'' ''pretrained'' 4096 None None None"
      and um = "UVUnwrappingModel_init ''partuv'' ''pretrained'' 4096 None None 1.25",
      OF present', THEN conjunct2, THEN conjunct2, THEN spec, THEN mp, OF denied]
  from not_found raised show ?thesis
    by simp
qed

text \<open>
  As first worded, every \<open>mesh_path\<close> that does not resolve to an existing file
  gives \<open>FileNotFoundError\<close>. A file name of 304 bytes is longer than a file
  system allows, so it names no file: \<open>os.stat\<close> fails with \<open>ENAMETOOLONG\<close>, and both
  methods raise that \<open>OSError\<close>.
\<close>

theorem process_request_file_not_found_counterexample:
  "os_stat (ascii_runtime {}) (replicate 300 CHR ''a'' @ ''.obj'') = Some ENAMETOOLONG
   \<and> retopo_process_request (ascii_runtime {})
       (MeshRetopologyModel_init ''fastmesh'' ''pretrained'' 4096 None None None)
       [''mesh_path'' \<mapsto> PStr (replicate 300 CHR ''a'' @ ''.obj'')]
     = Inl (OSError ENAMETOOLONG)
   \<and> uv_process_request (ascii_runtime {})
       (UVUnwrappingModel_init ''partuv'' ''pretrained'' 4096 None None 1.25)
       [''mesh_path'' \<mapsto> PStr (replicate 300 CHR ''a'' @ ''.obj'')]
     = Inl (OSError ENAMETOOLONG)"
proof -
  let ?s = "replicate 300 CHR ''a'' @ ''.obj''"
  have plain: "CHR ''/'' \<notin> set ?s" "CHR 0x00 \<notin> set ?s" "?s \<noteq> []" "?s \<noteq> ''.''"
    by auto
  then have "component ?s"
    by (simp add: component_def)
  then have parsed: "parse_path ?s = \<lparr> root = [], names = [?s] \<rparr>"
    by (rule parse_component)
  have shown: "path_str (parse_path ?s) = ?s"
    unfolding parsed by (simp add: path_str_def)
  have pieces: "split CHR ''/'' ?s = [?s]"
    using plain(1) by (rule split_no_sep)
  have stat: "os_stat (ascii_runtime {}) ?s = Some ENAMETOOLONG"
    by (simp add: ascii_runtime_def posix_stat_def pieces del: replicate.simps)
  have raised: "exists_path (ascii_runtime {}) (parse_path ?s) = Inl (OSError ENAMETOOLONG)"
    unfolding exists_path_def shown Let_def using plain(2) stat
    by (simp add: ENOENT_def EBADF_def ENOTDIR_def ENAMETOOLONG_def ELOOP_def
        del: replicate.simps)
  from stat raised show ?thesis
    by (simp add: retopo_process_request_def uv_process_request_def Path_def
        del: replicate.simps)
qed

section \<open>Validation errors\<close>




section \<open>Matching the output format\<close>




section \<open>The target vertex count\<close>

text \<open>
  Claim C8, as the code has it. In a request to \<open>MeshRetopologyModel\<close> that passes
  validation, the target is resolved as \<open>inputs.get("target_vertex_count",
  self.target_vertex_count)\<close>: the value under the key when the key is present (also
  when that value is \<open>None\<close>), the constructor's value otherwise.
  \<open>retopology_info["target_vertex_count"]\<close> is the resolved value, and
  \<open>output_stats["vertices"]\<close> is \<open>resolved or 0\<close>: the resolved value when it is an
  integer, and \<open>0\<close> when it is \<open>None\<close>.
\<close>

theorem retopo_target_vertex_count:
  assumes "retopo_process_request env rm inputs = Inr r"
  shows "(case inputs ''target_vertex_count'' of
            Some v \<Rightarrow>
              getitem2 r ''retopology_info'' ''target_vertex_count'' = Some v
          | None \<Rightarrow>
              getitem2 r ''retopology_info'' ''target_vertex_count''
                = Some (of_opt_int (target_vertex_count rm)))
       \<and> (case getitem2 r ''retopology_info'' ''target_vertex_count'' of
            Some (PInt n) \<Rightarrow> getitem2 r ''output_stats'' ''vertices'' = Some (PInt n)
          | Some PNone \<Rightarrow> getitem2 r ''output_stats'' ''vertices'' = Some (PInt 0)
          | Some resolved \<Rightarrow>
              getitem2 r ''output_stats'' ''vertices''
                = Some (if truthy resolved then resolved else PInt 0)
          | None \<Rightarrow> False)"
proof -
  let ?resolved = "dict_get inputs ''target_vertex_count'' (of_opt_int (target_vertex_count rm))"
  from assms obtain s where s: "inputs ''mesh_path'' = Some (PStr s)"
      "exists_path env (parse_path s) = Inr True"
      "input_format env (parse_path s) \<in> set (MeshRetopologyModel.supported_input_formats rm)"
      "dict_get inputs ''output_format'' (PStr ''obj'')
         \<in> PStr ` set (MeshRetopologyModel.supported_output_formats rm)"
      "format_error env ?resolved = None"
    using retopo_returns_iff [of env rm inputs] by blast
  then obtain fmt where fmt: "dict_get inputs ''output_format'' (PStr ''obj'') = PStr fmt"
      "fmt \<in> set (MeshRetopologyModel.supported_output_formats rm)"
    by auto
  from retopo_process_request_result [OF s(1-3) fmt s(5)] assms
  have info: "getitem2 r ''retopology_info'' ''target_vertex_count'' = Some ?resolved"
    and stats: "getitem2 r ''output_stats'' ''vertices'' = Some (py_or ?resolved (PInt 0))"
    by (auto simp add: getitem2_def)
  have first: "(case inputs ''target_vertex_count'' of
            Some v \<Rightarrow>
              getitem2 r ''retopology_info'' ''target_vertex_count'' = Some v
          | None \<Rightarrow>
              getitem2 r ''retopology_info'' ''target_vertex_count''
                = Some (of_opt_int (target_vertex_count rm)))"
    unfolding info by (simp add: dict_get_def split: option.splits)
  have second: "(case getitem2 r ''retopology_info'' ''target_vertex_count'' of
            Some (PInt n) \<Rightarrow> getitem2 r ''output_stats'' ''vertices'' = Some (PInt n)
          | Some PNone \<Rightarrow> getitem2 r ''output_stats'' ''vertices'' = Some (PInt 0)
          | Some resolved \<Rightarrow>
              getitem2 r ''output_stats'' ''vertices''
                = Some (if truthy resolved then resolved else PInt 0)
          | None \<Rightarrow> False)"
    unfolding info stats by (cases ?resolved) (simp_all add: py_or_def)
  from first second show ?thesis by (rule conjI)
qed

theorem retopo_target_vertex_count_witness:
  "getitem2
     [(''output_mesh_path'', PStr ''assets/retopo_creature.obj''),
      (''original_stats'', PDict [(''vertices'', PInt 0), (''faces'', PInt 0)]),
      (''output_stats'', PDict [(''vertices'', PInt 500), (''faces'', PInt 0)]),
      (''retopology_info'',
         PDict [(''success'', PBool True), (''target_vertex_count'', PInt 500)])]
     ''retopology_info'' ''target_vertex_count'' = Some (PInt 500)
   \<and> getitem2
     [(''output_mesh_path'', PStr ''assets/retopo_creature.obj''),
      (''original_stats'', PDict [(''vertices'', PInt 0), (''faces'', PInt 0)]),
      (''output_stats'', PDict [(''vertices'', PInt 500), (''faces'', PInt 0)]),
      (''retopology_info'',
         PDict [(''success'', PBool True), (''target_vertex_count'', PInt 500)])]
     ''output_stats'' ''vertices'' = Some (PInt 500)
   \<and> retopo_process_request (ascii_runtime {''assets/creature.obj''})
       (MeshRetopologyModel_init ''fastmesh'' ''pretrained'' 4096 None None (Some 1000))
       [''mesh_path'' \<mapsto> PStr ''assets/creature.obj'', ''target_vertex_count'' \<mapsto> PInt 500]
     = Inr
     [(''output_mesh_path'', PStr ''assets/retopo_creature.obj''),
      (''original_stats'', PDict [(''vertices'', PInt 0), (''faces'', PInt 0)]),
      (''output_stats'', PDict [(''vertices'', PInt 500), (''faces'', PInt 0)]),
      (''retopology_info'',
         PDict [(''success'', PBool True), (''target_vertex_count'', PInt 500)])]"
proof -
  let ?rm = "MeshRetopologyModel_init ''fastmesh'' ''pretrained'' 4096 None None (Some 1000)"
  let ?inputs = "[''mesh_path'' \<mapsto> PStr ''assets/creature.obj'',
                  ''target_vertex_count'' \<mapsto> PInt 500]"
  let ?r = "[(''output_mesh_path'', PStr ''assets/retopo_creature.obj''),
      (''original_stats'', PDict [(''vertices'', PInt 0), (''faces'', PInt 0)]),
      (''output_stats'', PDict [(''vertices'', PInt 500), (''faces'', PInt 0)]),
      (''retopology_info'',
         PDict [(''success'', PBool True), (''target_vertex_count'', PInt 500)])]"
  have run: "retopo_process_request (ascii_runtime {''assets/creature.obj''}) ?rm ?inputs
      = Inr ?r"
    by (simp add: retopo_process_request_def runtime_defs path_defs string_defs model_defs
        small_int_text)
  have given: "?inputs ''target_vertex_count'' = Some (PInt 500)"
    by simp
  from retopo_target_vertex_count [OF run]
  have info: "getitem2 ?r ''retopology_info'' ''target_vertex_count'' = Some (PInt 500)"
    unfolding given by simp
  from retopo_target_vertex_count [OF run]
  have stats: "getitem2 ?r ''output_stats'' ''vertices'' = Some (PInt 500)"
    unfolding info by simp
  from info stats run show ?thesis by simp
qed

text \<open>
  As first worded, \<open>output_stats["vertices"]\<close> equals the resolved target unless
  the input key and the constructor value are both absent or \<open>None\<close>. With a
  constructor value of 1000 and an explicit \<open>None\<close> under the key, the resolved
  target is \<open>None\<close> and the vertex count is \<open>0\<close>.
\<close>

theorem retopo_target_vertex_count_counterexample:
  "target_vertex_count
       (MeshRetopologyModel_init ''fastmesh'' ''pretrained'' 4096 None None (Some 1000))
     = Some 1000
   \<and> PInt 0 \<noteq> PNone
   \<and> retopo_process_request (ascii_runtime {''assets/creature.obj''})
       (MeshRetopologyModel_init ''fastmesh'' ''pretrained'' 4096 None None (Some 1000))
       [''mesh_path'' \<mapsto> PStr ''assets/creature.obj'', ''target_vertex_count'' \<mapsto> PNone]
     = Inr
     [(''output_mesh_path'', PStr ''assets/retopo_creature.obj''),
      (''original_stats'', PDict [(''vertices'', PInt 0), (''faces'', PInt 0)]),
      (''output_stats'', PDict [(''vertices'', PInt 0), (''faces'', PInt 0)]),
      (''retopology_info'',
         PDict [(''success'', PBool True), (''target_vertex_count'', PNone)])]"
  by (simp add: retopo_process_request_def runtime_defs path_defs string_defs model_defs)

section \<open>Matching the input extension\<close>

text \<open>
  The format that is matched is the lowercased extension, the suffix without its
  dot, for every lowercasing that keeps a dot in front where it is and puts none
  in front of other text; the lowercasing of ASCII text is one.
\<close>

lemma input_format_extension:
  assumes "\<And>t. str_lower env (CHR ''.'' # t) = CHR ''.'' # str_lower env t"
    and "\<And>t. t \<noteq> [] \<Longrightarrow> hd t \<noteq> CHR ''.''
           \<Longrightarrow> str_lower env t \<noteq> [] \<and> hd (str_lower env t) \<noteq> CHR ''.''"
    and "str_lower env [] = []"
  shows "input_format env p = str_lower env (drop 1 (suffix p))"
proof -
  consider "suffix p = []"
    | ext where "suffix p = CHR ''.'' # ext" "ext \<noteq> []" "CHR ''.'' \<notin> set ext"
    using suffix_cases [of p] by blast
  then show ?thesis
  proof cases
    case 1
    then show ?thesis by (simp add: input_format_def assms(3) lstrip_def)
  next
    case 2
    then have "hd ext \<noteq> CHR ''.''"
      by (cases ext) auto
    with 2(2) have low: "str_lower env ext \<noteq> [] \<and> hd (str_lower env ext) \<noteq> CHR ''.''"
      by (rule assms(2))
    then have "lstrip (str_lower env ext) CHR ''.'' = str_lower env ext"
      by (intro lstrip_no_lead) simp
    then show ?thesis
      using 2(1) by (simp add: input_format_def assms(1) lstrip_def)
  qed
qed

lemma ascii_lower_char_dot: "ascii_lower_char c = CHR ''.'' \<longleftrightarrow> c = CHR ''.''"
proof -
  have "of_char (ascii_lower_char c) = (46::nat) \<longleftrightarrow> of_char c = (46::nat)"
    by (simp add: ascii_lower_char_def Let_def)
  moreover have "of_char CHR ''.'' = (46::nat)" by simp
  ultimately show ?thesis by (metis of_char_eq_iff)
qed

lemma ascii_input_format:
  "input_format (ascii_runtime files) p = ascii_lower (drop 1 (suffix p))"
proof -
  have lower: "str_lower (ascii_runtime files) = ascii_lower"
    by (simp add: ascii_runtime_def)
  show ?thesis
    unfolding lower [symmetric]
  proof (rule input_format_extension)
    fix t
    show "str_lower (ascii_runtime files) (CHR ''.'' # t)
        = CHR ''.'' # str_lower (ascii_runtime files) t"
      by (simp add: lower ascii_lower_def ascii_lower_char_dot)
    show "str_lower (ascii_runtime files) [] = []"
      by (simp add: lower ascii_lower_def)
    assume "t \<noteq> []" and "hd t \<noteq> CHR ''.''"
    then show "str_lower (ascii_runtime files) t \<noteq> []
        \<and> hd (str_lower (ascii_runtime files) t) \<noteq> CHR ''.''"
      by (cases t) (simp_all add: lower ascii_lower_def ascii_lower_char_dot)
  qed
qed

text \<open>
  Claim C4. For an input file that exists, \<open>_process_request\<close> of either model
  raises the unsupported-input-format \<open>ValueError\<close> exactly when the file's
  extension, lowercased (the suffix lowercased by \<open>str.lower()\<close>, without its dot),
  is not among the model's \<open>supported_input_formats\<close>. So a file whose lowercased
  extension is supported is accepted, whatever the case of the extension as written
  in \<open>mesh_path\<close>: two paths whose suffixes have the same lowercase form are
  accepted or turned down together.
\<close>

theorem input_extension_case_insensitive:
  assumes "inputs ''mesh_path'' = Some (PStr s)"
    and "exists_path env (parse_path s) = Inr True"
  shows "((\<exists>x. retopo_process_request env rm inputs
                 = Inl (ValueError (UnsupportedInputFormat x)))
          = (lstrip (str_lower env (suffix (parse_path s))) CHR ''.''
               \<notin> set (MeshRetopologyModel.supported_input_formats rm)))
       \<and> ((\<exists>x. uv_process_request env um inputs
                 = Inl (ValueError (UnsupportedInputFormat x)))
          = (lstrip (str_lower env (suffix (parse_path s))) CHR ''.''
               \<notin> set (UVUnwrappingModel.supported_input_formats um)))
       \<and> (\<forall>inputs' s'. inputs' ''mesh_path'' = Some (PStr s')
              \<and> exists_path env (parse_path s') = Inr True
              \<and> str_lower env (suffix (parse_path s')) = str_lower env (suffix (parse_path s))
            \<longrightarrow> ((\<exists>x. retopo_process_request env rm inputs'
                        = Inl (ValueError (UnsupportedInputFormat x)))
                 = (\<exists>x. retopo_process_request env rm inputs
                        = Inl (ValueError (UnsupportedInputFormat x))))
              \<and> ((\<exists>x. uv_process_request env um inputs'
                        = Inl (ValueError (UnsupportedInputFormat x)))
                 = (\<exists>x. uv_process_request env um inputs
                        = Inl (ValueError (UnsupportedInputFormat x)))))"
proof -
  have retopo: "(\<exists>x. retopo_process_request env rm i
                 = Inl (ValueError (UnsupportedInputFormat x)))
          = (lstrip (str_lower env (suffix (parse_path t))) CHR ''.''
               \<notin> set (MeshRetopologyModel.supported_input_formats rm))"
    if "i ''mesh_path'' = Some (PStr t)" and "exists_path env (parse_path t) = Inr True"
    for i t
    using that format_error_cases [of env
        "dict_get i ''target_vertex_count'' (of_opt_int (target_vertex_count rm))"]
    by (auto simp add: retopo_process_request_def Path_def Let_def input_format_def
        split: pyval.splits)
  have uv: "(\<exists>x. uv_process_request env um i
                 = Inl (ValueError (UnsupportedInputFormat x)))
          = (lstrip (str_lower env (suffix (parse_path t))) CHR ''.''
               \<notin> set (UVUnwrappingModel.supported_input_formats um))"
    if "i ''mesh_path'' = Some (PStr t)" and "exists_path env (parse_path t) = Inr True"
    for i t
    using that format_error_cases [of env
        "dict_get i ''distortion_threshold'' (PFloat (distortion_threshold um))"]
    by (auto simp add: uv_process_request_def Path_def Let_def input_format_def
        split: pyval.splits)
  show ?thesis
    using retopo [of inputs s, OF assms] uv [of inputs s, OF assms] by (simp add: retopo uv)
qed

theorem input_extension_case_insensitive_witness:
  "suffix (parse_path ''/tmp/Mesh.OBJ'') = ''.OBJ''
   \<and> \<not> (\<exists>x. retopo_process_request (ascii_runtime {''/tmp/Mesh.OBJ'', ''/tmp/other.obj''})
           (MeshRetopologyModel_init ''fastmesh'' ''pretrained'' 4096 None None None)
           [''mesh_path'' \<mapsto> PStr ''/tmp/Mesh.OBJ'']
         = Inl (ValueError (UnsupportedInputFormat x)))
   \<and> \<not> (\<exists>x. uv_process_request (ascii_runtime {''/tmp/Mesh.OBJ'', ''/tmp/other.obj''})
           (UVUnwrappingModel_init ''partuv'' ''pretrained'' 4096 None None 1.25)
           [''mesh_path'' \<mapsto> PStr ''/tmp/Mesh.OBJ'']
         = Inl (ValueError (UnsupportedInputFormat x)))
   \<and> \<not> (\<exists>x. retopo_process_request (ascii_runtime {''/tmp/Mesh.OBJ'', ''/tmp/other.obj''})
           (MeshRetopologyModel_init ''fastmesh'' ''pretrained'' 4096 None None None)
           [''mesh_path'' \<mapsto> PStr ''/tmp/other.obj'']
         = Inl (ValueError (UnsupportedInputFormat x)))
   \<and> \<not> (\<exists>x. uv_process_request (ascii_runtime {''/tmp/Mesh.OBJ'', ''/tmp/other.obj''})
           (UVUnwrappingModel_init ''partuv'' ''pretrained'' 4096 None None 1.25)
           [''mesh_path'' \<mapsto> PStr ''/tmp/other.obj'']
         = Inl (ValueError (UnsupportedInputFormat x)))"
proof -
  let ?rm = "MeshRetopologyModel_init ''fastmesh'' ''pretrained'' 4096 None None None"
  let ?um = "UVUnwrappingModel_init ''partuv'' ''pretrained'' 4096 None None 1.25"
  let ?env = "ascii_runtime {''/tmp/Mesh.OBJ'', ''/tmp/other.obj''}"
  let ?inputs = "[''mesh_path'' \<mapsto> PStr ''/tmp/Mesh.OBJ'']"
  let ?other = "[''mesh_path'' \<mapsto> PStr ''/tmp/other.obj'']"
  have present: "?inputs ''mesh_path'' = Some (PStr ''/tmp/Mesh.OBJ'')"
    by simp
  have there: "exists_path ?env (parse_path ''/tmp/Mesh.OBJ'') = Inr True"
    by (simp add: runtime_defs path_defs string_defs)
  have ext: "suffix (parse_path ''/tmp/Mesh.OBJ'') = ''.OBJ''"
    by (simp add: path_defs string_defs)
  have low: "lstrip (str_lower ?env ''.OBJ'') CHR ''.'' = ''obj''"
    by (simp add: runtime_defs string_defs)
  have ok_r: "lstrip (str_lower ?env (suffix (parse_path ''/tmp/Mesh.OBJ''))) CHR ''.''
      \<in> set (MeshRetopologyModel.supported_input_formats ?rm)"
    unfolding ext low by (simp add: model_defs)
  have ok_u: "lstrip (str_lower ?env (suffix (parse_path ''/tmp/Mesh.OBJ''))) CHR ''.''
      \<in> set (UVUnwrappingModel.supported_input_formats ?um)"
    unfolding ext low by (simp add: model_defs)
  note accepted = input_extension_case_insensitive [where inputs = "?inputs" and rm = "?rm"
      and um = "?um" and env = "?env", OF present there]
  from accepted [THEN conjunct1] ok_r
  have first_r: "\<not> (\<exists>x. retopo_process_request ?env ?rm ?inputs
      = Inl (ValueError (UnsupportedInputFormat x)))"
    by simp
  from accepted [THEN conjunct2, THEN conjunct1] ok_u
  have first_u: "\<not> (\<exists>x. uv_process_request ?env ?um ?inputs
      = Inl (ValueError (UnsupportedInputFormat x)))"
    by simp
  have same_case: "?other ''mesh_path'' = Some (PStr ''/tmp/other.obj'')
      \<and> exists_path ?env (parse_path ''/tmp/other.obj'') = Inr True
      \<and> str_lower ?env (suffix (parse_path ''/tmp/other.obj''))
          = str_lower ?env (suffix (parse_path ''/tmp/Mesh.OBJ''))"
    by (simp add: runtime_defs path_defs string_defs)
  note together = accepted [THEN conjunct2, THEN conjunct2, THEN spec [where x = "?other"],
      THEN spec [where x = "''/tmp/other.obj''"], THEN mp, OF same_case]
  from together [THEN conjunct1] first_r
  have second_r: "\<not> (\<exists>x. retopo_process_request ?env ?rm ?other
      = Inl (ValueError (UnsupportedInputFormat x)))"
    by simp
  from together [THEN conjunct2] first_u
  have second_u: "\<not> (\<exists>x. uv_process_request ?env ?um ?other
      = Inl (ValueError (UnsupportedInputFormat x)))"
    by simp
  from ext first_r first_u second_r second_u show ?thesis
    by (intro conjI)
qed

section \<open>The returned mapping\<close>

text \<open>
  Claim C3, as the code has it. For a request that passes validation (\<open>mesh_path\<close>
  names an existing file whose format is supported, the requested output format
  \<open>fmt\<close> is supported) and whose logged value has a text,
  \<open>MeshRetopologyModel._process_request\<close> returns a mapping with exactly the keys
  \<open>output_mesh_path\<close>, \<open>original_stats\<close>, \<open>output_stats\<close> and \<open>retopology_info\<close>,
  and \<open>UVUnwrappingModel._process_request\<close> one with exactly the keys
  \<open>output_mesh_path\<close>, \<open>packed_mesh_path\<close>, \<open>num_components\<close>, \<open>distortion\<close> and
  \<open>uv_info\<close>. In both, \<open>output_mesh_path\<close> is the text of the input's parent joined
  with \<open>retopo_\<close> (respectively \<open>uv_\<close>), the stem of the input, a dot and \<open>fmt\<close>.
  When \<open>fmt\<close> holds no path separator, that path has the parent of the input path
  as its parent and the joined name as its name, and its suffix is the dot and
  \<open>fmt\<close> when \<open>fmt\<close> is a plain extension (not empty, no dot).
\<close>

theorem process_request_result_shape:
  assumes "inputs ''mesh_path'' = Some (PStr s)"
    and "exists_path env (parse_path s) = Inr True"
    and "dict_get inputs ''output_format'' (PStr ''obj'') = PStr fmt"
  shows "(input_format env (parse_path s)
            \<in> set (MeshRetopologyModel.supported_input_formats rm)
          \<and> fmt \<in> set (MeshRetopologyModel.supported_output_formats rm)
          \<and> format_error env
              (dict_get inputs ''target_vertex_count'' (of_opt_int (target_vertex_count rm)))
              = None
          \<longrightarrow> (\<exists>r out. retopo_process_request env rm inputs = Inr r
                \<and> map fst r = [''output_mesh_path'', ''original_stats'', ''output_stats'',
                                ''retopology_info'']
                \<and> getitem r ''output_mesh_path'' = Some (PStr out)
                \<and> out = path_str (truediv (parent (parse_path s))
                           (''retopo_'' @ stem (parse_path s) @ ''.'' @ fmt))
                \<and> (CHR ''/'' \<notin> set fmt
                     \<longrightarrow> parent (parse_path out) = parent (parse_path s)
                       \<and> name (parse_path out) = ''retopo_'' @ stem (parse_path s) @ ''.'' @ fmt
                       \<and> (fmt \<noteq> [] \<and> CHR ''.'' \<notin> set fmt
                            \<longrightarrow> suffix (parse_path out) = ''.'' @ fmt))))
       \<and> (input_format env (parse_path s) \<in> set (UVUnwrappingModel.supported_input_formats um)
          \<and> fmt \<in> set (UVUnwrappingModel.supported_output_formats um)
          \<and> format_error env
              (dict_get inputs ''distortion_threshold'' (PFloat (distortion_threshold um)))
              = None
          \<longrightarrow> (\<exists>r out. uv_process_request env um inputs = Inr r
                \<and> map fst r = [''output_mesh_path'', ''packed_mesh_path'', ''num_components'',
                                ''distortion'', ''uv_info'']
                \<and> getitem r ''output_mesh_path'' = Some (PStr out)
                \<and> out = path_str (truediv (parent (parse_path s))
                           (''uv_'' @ stem (parse_path s) @ ''.'' @ fmt))
                \<and> (CHR ''/'' \<notin> set fmt
                     \<longrightarrow> parent (parse_path out) = parent (parse_path s)
                       \<and> name (parse_path out) = ''uv_'' @ stem (parse_path s) @ ''.'' @ fmt
                       \<and> (fmt \<noteq> [] \<and> CHR ''.'' \<notin> set fmt
                            \<longrightarrow> suffix (parse_path out) = ''.'' @ fmt))))"
proof (intro conjI impI)
  assume ok: "input_format env (parse_path s)
            \<in> set (MeshRetopologyModel.supported_input_formats rm)
          \<and> fmt \<in> set (MeshRetopologyModel.supported_output_formats rm)
          \<and> format_error env
              (dict_get inputs ''target_vertex_count'' (of_opt_int (target_vertex_count rm)))
              = None"
  let ?out = "path_str (truediv (parent (parse_path s))
                (''retopo_'' @ stem (parse_path s) @ ''.'' @ fmt))"
  have run: "\<exists>r. retopo_process_request env rm inputs = Inr r
      \<and> map fst r = [''output_mesh_path'', ''original_stats'', ''output_stats'',
                      ''retopology_info'']
      \<and> getitem r ''output_mesh_path'' = Some (PStr ?out)"
    using retopo_process_request_result [OF assms(1,2) _ assms(3)] ok
    by (simp add: getitem_def)
  have pre: "CHR ''/'' \<notin> set ''retopo_''" "''retopo_'' \<noteq> []" "hd ''retopo_'' \<noteq> CHR ''.''"
    by simp_all
  have loc: "CHR ''/'' \<notin> set fmt
      \<longrightarrow> parent (parse_path ?out) = parent (parse_path s)
        \<and> name (parse_path ?out) = ''retopo_'' @ stem (parse_path s) @ ''.'' @ fmt
        \<and> (fmt \<noteq> [] \<and> CHR ''.'' \<notin> set fmt \<longrightarrow> suffix (parse_path ?out) = ''.'' @ fmt)"
  proof
    assume plain: "CHR ''/'' \<notin> set fmt"
    note at = output_location [where s = s, OF plain pre refl]
    show "parent (parse_path ?out) = parent (parse_path s)
        \<and> name (parse_path ?out) = ''retopo_'' @ stem (parse_path s) @ ''.'' @ fmt
        \<and> (fmt \<noteq> [] \<and> CHR ''.'' \<notin> set fmt \<longrightarrow> suffix (parse_path ?out) = ''.'' @ fmt)"
      by (intro conjI at)
  qed
  from run obtain r where all: "retopo_process_request env rm inputs = Inr r
      \<and> map fst r = [''output_mesh_path'', ''original_stats'', ''output_stats'',
                    ''retopology_info'']
      \<and> getitem r ''output_mesh_path'' = Some (PStr ?out)" ..
  from all have r1: "retopo_process_request env rm inputs = Inr r"
    by (rule conjunct1)
  from all have "map fst r = [''output_mesh_path'', ''original_stats'', ''output_stats'',
                    ''retopology_info'']
      \<and> getitem r ''output_mesh_path'' = Some (PStr ?out)"
    by (rule conjunct2)
  then have r2: "map fst r = [''output_mesh_path'', ''original_stats'', ''output_stats'',
                    ''retopology_info'']"
    and r3: "getitem r ''output_mesh_path'' = Some (PStr ?out)"
    by (rule conjunct1, rule conjunct2)
  show "\<exists>r out. retopo_process_request env rm inputs = Inr r
      \<and> map fst r = [''output_mesh_path'', ''original_stats'', ''output_stats'',
                      ''retopology_info'']
      \<and> getitem r ''output_mesh_path'' = Some (PStr out)
      \<and> out = path_str (truediv (parent (parse_path s))
                 (''retopo_'' @ stem (parse_path s) @ ''.'' @ fmt))
      \<and> (CHR ''/'' \<notin> set fmt
           \<longrightarrow> parent (parse_path out) = parent (parse_path s)
             \<and> name (parse_path out) = ''retopo_'' @ stem (parse_path s) @ ''.'' @ fmt
             \<and> (fmt \<noteq> [] \<and> CHR ''.'' \<notin> set fmt \<longrightarrow> suffix (parse_path out) = ''.'' @ fmt))"
    by (intro exI [of _ r] exI [of _ "?out"] conjI r1 r2 r3 refl loc)
next
  assume ok: "input_format env (parse_path s) \<in> set (UVUnwrappingModel.supported_input_formats um)
          \<and> fmt \<in> set (UVUnwrappingModel.supported_output_formats um)
          \<and> format_error env
              (dict_get inputs ''distortion_threshold'' (PFloat (distortion_threshold um)))
              = None"
  let ?out = "path_str (truediv (parent (parse_path s))
                (''uv_'' @ stem (parse_path s) @ ''.'' @ fmt))"
  have run: "\<exists>r. uv_process_request env um inputs = Inr r
      \<and> map fst r = [''output_mesh_path'', ''packed_mesh_path'', ''num_components'',
                      ''distortion'', ''uv_info'']
      \<and> getitem r ''output_mesh_path'' = Some (PStr ?out)"
    using uv_process_request_result [OF assms(1,2) _ assms(3)] ok
    by (simp add: getitem_def)
  have pre: "CHR ''/'' \<notin> set ''uv_''" "''uv_'' \<noteq> []" "hd ''uv_'' \<noteq> CHR ''.''"
    by simp_all
  have loc: "CHR ''/'' \<notin> set fmt
      \<longrightarrow> parent (parse_path ?out) = parent (parse_path s)
        \<and> name (parse_path ?out) = ''uv_'' @ stem (parse_path s) @ ''.'' @ fmt
        \<and> (fmt \<noteq> [] \<and> CHR ''.'' \<notin> set fmt \<longrightarrow> suffix (parse_path ?out) = ''.'' @ fmt)"
  proof
    assume plain: "CHR ''/'' \<notin> set fmt"
    note at = output_location [where s = s, OF plain pre refl]
    show "parent (parse_path ?out) = parent (parse_path s)
        \<and> name (parse_path ?out) = ''uv_'' @ stem (parse_path s) @ ''.'' @ fmt
        \<and> (fmt \<noteq> [] \<and> CHR ''.'' \<notin> set fmt \<longrightarrow> suffix (parse_path ?out) = ''.'' @ fmt)"
      by (intro conjI at)
  qed
  from run obtain r where all: "uv_process_request env um inputs = Inr r
      \<and> map fst r = [''output_mesh_path'', ''packed_mesh_path'', ''num_components'',
                    ''distortion'', ''uv_info'']
      \<and> getitem r ''output_mesh_path'' = Some (PStr ?out)" ..
  from all have r1: "uv_process_request env um inputs = Inr r"
    by (rule conjunct1)
  from all have "map fst r = [''output_mesh_path'', ''packed_mesh_path'', ''num_components'',
                    ''distortion'', ''uv_info'']
      \<and> getitem r ''output_mesh_path'' = Some (PStr ?out)"
    by (rule conjunct2)
  then have r2: "map fst r = [''output_mesh_path'', ''packed_mesh_path'', ''num_components'',
                    ''distortion'', ''uv_info'']"
    and r3: "getitem r ''output_mesh_path'' = Some (PStr ?out)"
    by (rule conjunct1, rule conjunct2)
  show "\<exists>r out. uv_process_request env um inputs = Inr r
      \<and> map fst r = [''output_mesh_path'', ''packed_mesh_path'', ''num_components'',
                      ''distortion'', ''uv_info'']
      \<and> getitem r ''output_mesh_path'' = Some (PStr out)
      \<and> out = path_str (truediv (parent (parse_path s))
                 (''uv_'' @ stem (parse_path s) @ ''.'' @ fmt))
      \<and> (CHR ''/'' \<notin> set fmt
           \<longrightarrow> parent (parse_path out) = parent (parse_path s)
             \<and> name (parse_path out) = ''uv_'' @ stem (parse_path s) @ ''.'' @ fmt
             \<and> (fmt \<noteq> [] \<and> CHR ''.'' \<notin> set fmt \<longrightarrow> suffix (parse_path out) = ''.'' @ fmt))"
    by (intro exI [of _ r] exI [of _ "?out"] conjI r1 r2 r3 refl loc)
qed

theorem process_request_result_shape_witness:
  "(\<exists>r out. retopo_process_request (ascii_runtime {''/tmp/models/Creature.OBJ''})
         (MeshRetopologyModel_init ''fastmesh'' ''pretrained'' 4096 None None None)
         [''mesh_path'' \<mapsto> PStr ''/tmp/models/Creature.OBJ'',
          ''output_format'' \<mapsto> PStr ''glb''] = Inr r
       \<and> map fst r = [''output_mesh_path'', ''original_stats'', ''output_stats'',
                       ''retopology_info'']
       \<and> getitem r ''output_mesh_path'' = Some (PStr out)
       \<and> parent (parse_path out) = \<lparr> root = ''/'', names = [''tmp'', ''models''] \<rparr>
       \<and> name (parse_path out) = ''retopo_Creature.glb''
       \<and> suffix (parse_path out) = ''.glb'')
   \<and> (\<exists>r out. uv_process_request (ascii_runtime {''/tmp/models/Creature.OBJ''})
         (UVUnwrappingModel_init ''partuv'' ''pretrained'' 4096 None None 1.25)
         [''mesh_path'' \<mapsto> PStr ''/tmp/models/Creature.OBJ'',
          ''output_format'' \<mapsto> PStr ''glb''] = Inr r
       \<and> map fst r = [''output_mesh_path'', ''packed_mesh_path'', ''num_components'',
                       ''distortion'', ''uv_info'']
       \<and> getitem r ''output_mesh_path'' = Some (PStr out)
       \<and> parent (parse_path out) = \<lparr> root = ''/'', names = [''tmp'', ''models''] \<rparr>
       \<and> name (parse_path out) = ''uv_Creature.glb''
       \<and> suffix (parse_path out) = ''.glb'')"
proof -
  let ?rm = "MeshRetopologyModel_init ''fastmesh'' ''pretrained'' 4096 None None None"
  let ?um = "UVUnwrappingModel_init ''partuv'' ''pretrained'' 4096 None None 1.25"
  let ?env = "ascii_runtime {''/tmp/models/Creature.OBJ''}"
  let ?inputs = "[''mesh_path'' \<mapsto> PStr ''/tmp/models/Creature.OBJ'',
                  ''output_format'' \<mapsto> PStr ''glb'']"
  have present: "?inputs ''mesh_path'' = Some (PStr ''/tmp/models/Creature.OBJ'')"
    by simp
  have there: "exists_path ?env (parse_path ''/tmp/models/Creature.OBJ'') = Inr True"
    by (simp add: runtime_defs path_defs string_defs)
  have asked: "dict_get ?inputs ''output_format'' (PStr ''obj'') = PStr ''glb''"
    by (simp add: dict_get_def)
  have fmt: "input_format ?env (parse_path ''/tmp/models/Creature.OBJ'') = ''obj''"
    by (simp add: runtime_defs path_defs string_defs)
  have st: "stem (parse_path ''/tmp/models/Creature.OBJ'') = ''Creature''"
    by (simp add: path_defs string_defs)
  have par: "parent (parse_path ''/tmp/models/Creature.OBJ'')
      = \<lparr> root = ''/'', names = [''tmp'', ''models''] \<rparr>"
    by (simp add: path_defs string_defs)
  have ok_r: "input_format ?env (parse_path ''/tmp/models/Creature.OBJ'')
        \<in> set (MeshRetopologyModel.supported_input_formats ?rm)
      \<and> ''glb'' \<in> set (MeshRetopologyModel.supported_output_formats ?rm)
      \<and> format_error ?env
          (dict_get ?inputs ''target_vertex_count'' (of_opt_int (target_vertex_count ?rm)))
          = None"
    by (simp add: fmt model_defs format_error_def)
  have ok_u: "input_format ?env (parse_path ''/tmp/models/Creature.OBJ'')
        \<in> set (UVUnwrappingModel.supported_input_formats ?um)
      \<and> ''glb'' \<in> set (UVUnwrappingModel.supported_output_formats ?um)
      \<and> format_error ?env
          (dict_get ?inputs ''distortion_threshold'' (PFloat (distortion_threshold ?um)))
          = None"
    by (simp add: fmt model_defs format_error_def)
  note shape = process_request_result_shape [where inputs = "?inputs" and rm = "?rm"
      and um = "?um" and env = "?env", OF present there asked]
  have plain: "CHR ''/'' \<notin> set ''glb''" "''glb'' \<noteq> [] \<and> CHR ''.'' \<notin> set ''glb''"
    by simp_all
  from shape [THEN conjunct1, THEN mp, OF ok_r]
  have first: "\<exists>r out. retopo_process_request ?env ?rm ?inputs = Inr r
       \<and> map fst r = [''output_mesh_path'', ''original_stats'', ''output_stats'',
                       ''retopology_info'']
       \<and> getitem r ''output_mesh_path'' = Some (PStr out)
       \<and> parent (parse_path out) = \<lparr> root = ''/'', names = [''tmp'', ''models''] \<rparr>
       \<and> name (parse_path out) = ''retopo_Creature.glb''
       \<and> suffix (parse_path out) = ''.glb''"
    unfolding st par using plain by (elim exE conjE impE) simp_all
  from shape [THEN conjunct2, THEN mp, OF ok_u]
  have second: "\<exists>r out. uv_process_request ?env ?um ?inputs = Inr r
       \<and> map fst r = [''output_mesh_path'', ''packed_mesh_path'', ''num_components'',
                       ''distortion'', ''uv_info'']
       \<and> getitem r ''output_mesh_path'' = Some (PStr out)
       \<and> parent (parse_path out) = \<lparr> root = ''/'', names = [''tmp'', ''models''] \<rparr>
       \<and> name (parse_path out) = ''uv_Creature.glb''
       \<and> suffix (parse_path out) = ''.glb''"
    unfolding st par using plain by (elim exE conjE impE) simp_all
  from first second show ?thesis
    by (rule conjI)
qed

text \<open>
  As first worded, the output always lies in the parent directory of the input
  and carries the requested format as its extension. A model built with the
  output format \<open>a/b\<close>, asked for that format, returns a path one directory
  further down: its parent is not the input's parent, its name is \<open>b\<close> and it has
  no extension.
\<close>

theorem process_request_result_shape_counterexample:
  "retopo_process_request (ascii_runtime {''assets/creature.obj''})
       (MeshRetopologyModel_init ''fastmesh'' ''pretrained'' 4096 None (Some [''a/b'']) None)
       [''mesh_path'' \<mapsto> PStr ''assets/creature.obj'', ''output_format'' \<mapsto> PStr ''a/b'']
     = Inr
     [(''output_mesh_path'', PStr ''assets/retopo_creature.a/b''),
      (''original_stats'', PDict [(''vertices'', PInt 0), (''faces'', PInt 0)]),
      (''output_stats'', PDict [(''vertices'', PInt 0), (''faces'', PInt 0)]),
      (''retopology_info'',
         PDict [(''success'', PBool True), (''target_vertex_count'', PNone)])]
   \<and> uv_process_request (ascii_runtime {''assets/creature.obj''})
       (UVUnwrappingModel_init ''partuv'' ''pretrained'' 4096 None (Some [''a/b'']) 1.25)
       [''mesh_path'' \<mapsto> PStr ''assets/creature.obj'', ''output_format'' \<mapsto> PStr ''a/b'']
     = Inr
     [(''output_mesh_path'', PStr ''assets/uv_creature.a/b''),
      (''packed_mesh_path'', PNone),
      (''num_components'', PInt 0),
      (''distortion'', PFloat 0),
      (''uv_info'',
         PDict [(''success'', PBool True),
                (''distortion_threshold'', PFloat 1.25),
                (''pack_method'', PStr ''blender'')])]
   \<and> parent (parse_path ''assets/creature.obj'') = \<lparr> root = '''', names = [''assets''] \<rparr>
   \<and> parent (parse_path ''assets/retopo_creature.a/b'')
       = \<lparr> root = '''', names = [''assets'', ''retopo_creature.a''] \<rparr>
   \<and> parent (parse_path ''assets/uv_creature.a/b'')
       = \<lparr> root = '''', names = [''assets'', ''uv_creature.a''] \<rparr>
   \<and> name (parse_path ''assets/retopo_creature.a/b'') = ''b''
   \<and> name (parse_path ''assets/uv_creature.a/b'') = ''b''
   \<and> suffix (parse_path ''assets/retopo_creature.a/b'') = ''''
   \<and> suffix (parse_path ''assets/uv_creature.a/b'') = ''''"
  by (simp add: retopo_process_request_def uv_process_request_def runtime_defs path_defs
      string_defs model_defs)

text \<open>
  A request that passes every check and asks for a target of 4301 digits raises
  \<open>ValueError\<close> when the message to log is built, and returns no mapping.
\<close>

lemma logged_value_over_limit:
  "retopo_process_request (ascii_runtime {''assets/creature.obj''})
       (MeshRetopologyModel_init ''fastmesh'' ''pretrained'' 4096 None None None)
       [''mesh_path'' \<mapsto> PStr ''assets/creature.obj'',
        ''target_vertex_count'' \<mapsto> PInt (10 ^ default_max_str_digits)]
     = Inl (ValueError IntMaxStrDigits)
   \<and> uv_process_request (ascii_runtime {''assets/creature.obj''})
       (UVUnwrappingModel_init ''partuv'' ''pretrained'' 4096 None None 1.25)
       [''mesh_path'' \<mapsto> PStr ''assets/creature.obj'',
        ''distortion_threshold'' \<mapsto> PInt (10 ^ default_max_str_digits)]
     = Inl (ValueError IntMaxStrDigits)"
  by (simp add: retopo_process_request_def uv_process_request_def runtime_defs path_defs
      string_defs model_defs default_limit_set)

section \<open>What a request reads\<close>

lemma retopo_reads:
  assumes "MeshRetopologyModel.supported_input_formats rm
             = MeshRetopologyModel.supported_input_formats rm'"
    and "MeshRetopologyModel.supported_output_formats rm
             = MeshRetopologyModel.supported_output_formats rm'"
    and "target_vertex_count rm = target_vertex_count rm'"
    and "inputs ''mesh_path'' = inputs' ''mesh_path''"
    and "inputs ''output_format'' = inputs' ''output_format''"
    and "inputs ''target_vertex_count'' = inputs' ''target_vertex_count''"
  shows "retopo_process_request env rm inputs = retopo_process_request env rm' inputs'"
  using assms
  by (simp add: retopo_process_request_def dict_get_def
      cong: option.case_cong sum.case_cong pyval.case_cong if_cong)

lemma uv_reads:
  assumes "UVUnwrappingModel.supported_input_formats um
             = UVUnwrappingModel.supported_input_formats um'"
    and "UVUnwrappingModel.supported_output_formats um
             = UVUnwrappingModel.supported_output_formats um'"
    and "distortion_threshold um = distortion_threshold um'"
    and "inputs ''mesh_path'' = inputs' ''mesh_path''"
    and "inputs ''output_format'' = inputs' ''output_format''"
    and "inputs ''distortion_threshold'' = inputs' ''distortion_threshold''"
    and "inputs ''pack_method'' = inputs' ''pack_method''"
  shows "uv_process_request env um inputs = uv_process_request env um' inputs'"
  using assms
  by (simp add: uv_process_request_def dict_get_def
      cong: option.case_cong sum.case_cong pyval.case_cong if_cong)

lemma retopo_seed:
  "retopo_process_request env rm (inputs(''seed'' := x)) = retopo_process_request env rm inputs"
  by (rule retopo_reads) simp_all

lemma uv_pack_method_error:
  assumes "uv_process_request env um inputs = Inl e"
  shows "uv_process_request env um (inputs(''pack_method'' \<mapsto> v)) = Inl e"
  using assms
  by (auto simp add: uv_process_request_def dict_get_def Path_def Let_def
      split: option.splits pyval.splits sum.splits if_splits)

lemma uv_pack_method_result:
  assumes "uv_process_request env um inputs = Inr r"
  shows "\<exists>r'. uv_process_request env um (inputs(''pack_method'' \<mapsto> v)) = Inr r'
           \<and> getitem2 r' ''uv_info'' ''pack_method'' = Some v
           \<and> map fst r' = map fst r
           \<and> (\<forall>k. k \<noteq> ''uv_info'' \<longrightarrow> getitem r' k = getitem r k)"
proof -
  let ?inputs' = "inputs(''pack_method'' \<mapsto> v)"
  from assms obtain s where s: "inputs ''mesh_path'' = Some (PStr s)"
      "exists_path env (parse_path s) = Inr True"
      "input_format env (parse_path s) \<in> set (UVUnwrappingModel.supported_input_formats um)"
      "dict_get inputs ''output_format'' (PStr ''obj'')
         \<in> PStr ` set (UVUnwrappingModel.supported_output_formats um)"
      "format_error env
         (dict_get inputs ''distortion_threshold'' (PFloat (distortion_threshold um))) = None"
    using uv_returns_iff [of env um inputs] by blast
  then obtain fmt where fmt: "dict_get inputs ''output_format'' (PStr ''obj'') = PStr fmt"
      "fmt \<in> set (UVUnwrappingModel.supported_output_formats um)"
    by auto
  have s': "?inputs' ''mesh_path'' = Some (PStr s)"
    using s(1) by simp
  have fmt': "dict_get ?inputs' ''output_format'' (PStr ''obj'') = PStr fmt"
    using fmt(1) by (simp add: dict_get_def)
  have text': "format_error env
      (dict_get ?inputs' ''distortion_threshold'' (PFloat (distortion_threshold um))) = None"
    using s(5) by (simp add: dict_get_def)
  note before = uv_process_request_result [OF s(1-3) fmt s(5)]
  note after = uv_process_request_result [OF s' s(2,3) fmt' fmt(2) text']
  from before assms have r: "r = [(''output_mesh_path'',
         PStr (path_str (truediv (parent (parse_path s))
           (''uv_'' @ stem (parse_path s) @ ''.'' @ fmt)))),
      (''packed_mesh_path'', PNone),
      (''num_components'', PInt 0),
      (''distortion'', PFloat 0),
      (''uv_info'',
         PDict [(''success'', PBool True),
                (''distortion_threshold'',
                  dict_get inputs ''distortion_threshold'' (PFloat (distortion_threshold um))),
                (''pack_method'', dict_get inputs ''pack_method'' (PStr ''blender''))])]"
    by simp
  show ?thesis
    apply (rule exI)
    apply (rule conjI)
     apply (rule after)
    apply (simp add: r getitem2_def getitem_def dict_get_def)
    done
qed

section \<open>Determinism\<close>

text \<open>
  Claim C9. The result of \<open>_process_request\<close> is a function of what the method
  reads: two calls return the same result or raise the same error when the
  runtime and the file system are the same, the models agree on their format
  lists and on \<open>target_vertex_count\<close> (respectively \<open>distortion_threshold\<close>), and
  the inputs agree on \<open>mesh_path\<close>, \<open>output_format\<close> and \<open>target_vertex_count\<close> (respectively
  \<open>distortion_threshold\<close> and \<open>pack_method\<close>). In particular the result of
  \<open>MeshRetopologyModel\<close> is the same with any \<open>seed\<close> and with none. For
  \<open>UVUnwrappingModel\<close>, giving any value as \<open>pack_method\<close> leaves an error as it
  was, and turns a result into one with the same keys and the same values outside
  \<open>uv_info\<close>, whose \<open>uv_info["pack_method"]\<close> is the value given.
\<close>

theorem process_request_deterministic:
  "(MeshRetopologyModel.supported_input_formats rm
        = MeshRetopologyModel.supported_input_formats rm'
      \<and> MeshRetopologyModel.supported_output_formats rm
        = MeshRetopologyModel.supported_output_formats rm'
      \<and> target_vertex_count rm = target_vertex_count rm'
      \<and> inputs ''mesh_path'' = inputs' ''mesh_path''
      \<and> inputs ''output_format'' = inputs' ''output_format''
      \<and> inputs ''target_vertex_count'' = inputs' ''target_vertex_count''
      \<longrightarrow> retopo_process_request env rm inputs = retopo_process_request env rm' inputs')
   \<and> retopo_process_request env rm (inputs(''seed'' := x)) = retopo_process_request env rm inputs
   \<and> (UVUnwrappingModel.supported_input_formats um
        = UVUnwrappingModel.supported_input_formats um'
      \<and> UVUnwrappingModel.supported_output_formats um
        = UVUnwrappingModel.supported_output_formats um'
      \<and> distortion_threshold um = distortion_threshold um'
      \<and> inputs ''mesh_path'' = inputs' ''mesh_path''
      \<and> inputs ''output_format'' = inputs' ''output_format''
      \<and> inputs ''distortion_threshold'' = inputs' ''distortion_threshold''
      \<and> inputs ''pack_method'' = inputs' ''pack_method''
      \<longrightarrow> uv_process_request env um inputs = uv_process_request env um' inputs')
   \<and> (\<forall>e. uv_process_request env um inputs = Inl e
          \<longrightarrow> uv_process_request env um (inputs(''pack_method'' \<mapsto> v)) = Inl e)
   \<and> (\<forall>r. uv_process_request env um inputs = Inr r
          \<longrightarrow> (\<exists>r'. uv_process_request env um (inputs(''pack_method'' \<mapsto> v)) = Inr r'
                 \<and> getitem2 r' ''uv_info'' ''pack_method'' = Some v
                 \<and> map fst r' = map fst r
                 \<and> (\<forall>k. k \<noteq> ''uv_info'' \<longrightarrow> getitem r' k = getitem r k)))"
proof (intro conjI impI allI)
  assume "MeshRetopologyModel.supported_input_formats rm
        = MeshRetopologyModel.supported_input_formats rm'
      \<and> MeshRetopologyModel.supported_output_formats rm
        = MeshRetopologyModel.supported_output_formats rm'
      \<and> target_vertex_count rm = target_vertex_count rm'
      \<and> inputs ''mesh_path'' = inputs' ''mesh_path''
      \<and> inputs ''output_format'' = inputs' ''output_format''
      \<and> inputs ''target_vertex_count'' = inputs' ''target_vertex_count''"
  then show "retopo_process_request env rm inputs = retopo_process_request env rm' inputs'"
    by (intro retopo_reads) simp_all
next
  show "retopo_process_request env rm (inputs(''seed'' := x))
      = retopo_process_request env rm inputs"
    by (rule retopo_seed)
next
  assume "UVUnwrappingModel.supported_input_formats um
        = UVUnwrappingModel.supported_input_formats um'
      \<and> UVUnwrappingModel.supported_output_formats um
        = UVUnwrappingModel.supported_output_formats um'
      \<and> distortion_threshold um = distortion_threshold um'
      \<and> inputs ''mesh_path'' = inputs' ''mesh_path''
      \<and> inputs ''output_format'' = inputs' ''output_format''
      \<and> inputs ''distortion_threshold'' = inputs' ''distortion_threshold''
      \<and> inputs ''pack_method'' = inputs' ''pack_method''"
  then show "uv_process_request env um inputs = uv_process_request env um' inputs'"
    by (intro uv_reads) simp_all
next
  fix e
  assume "uv_process_request env um inputs = Inl e"
  then show "uv_process_request env um (inputs(''pack_method'' \<mapsto> v)) = Inl e"
    by (rule uv_pack_method_error)
next
  fix r
  assume "uv_process_request env um inputs = Inr r"
  then show "\<exists>r'. uv_process_request env um (inputs(''pack_method'' \<mapsto> v)) = Inr r'
      \<and> getitem2 r' ''uv_info'' ''pack_method'' = Some v
      \<and> map fst r' = map fst r
      \<and> (\<forall>k. k \<noteq> ''uv_info'' \<longrightarrow> getitem r' k = getitem r k)"
    by (rule uv_pack_method_result)
qed

theorem process_request_deterministic_witness:
  "retopo_process_request (ascii_runtime {''assets/creature.obj''})
       (MeshRetopologyModel_init ''fastmesh_a'' ''pretrained/a'' 4096 None None (Some 1000))
       [''mesh_path'' \<mapsto> PStr ''assets/creature.obj'', ''seed'' \<mapsto> PInt 42]
     = retopo_process_request (ascii_runtime {''assets/creature.obj''})
       (MeshRetopologyModel_init ''fastmesh_b'' ''pretrained/b'' 8192 None None (Some 1000))
       [''mesh_path'' \<mapsto> PStr ''assets/creature.obj'', ''seed'' \<mapsto> PInt 7]
   \<and> (\<exists>r'. uv_process_request (ascii_runtime {''assets/creature.obj''})
         (UVUnwrappingModel_init ''partuv'' ''pretrained'' 4096 None None 1.25)
         [''mesh_path'' \<mapsto> PStr ''assets/creature.obj'', ''pack_method'' \<mapsto> PInt 7]
       = Inr r'
       \<and> getitem2 r' ''uv_info'' ''pack_method'' = Some (PInt 7))"
proof -
  let ?rm = "MeshRetopologyModel_init ''fastmesh_a'' ''pretrained/a'' 4096 None None (Some 1000)"
  let ?rm' = "MeshRetopologyModel_init ''fastmesh_b'' ''pretrained/b'' 8192 None None (Some 1000)"
  let ?um = "UVUnwrappingModel_init ''partuv'' ''pretrained'' 4096 None None 1.25"
  let ?env = "ascii_runtime {''assets/creature.obj''}"
  let ?i1 = "[''mesh_path'' \<mapsto> PStr ''assets/creature.obj'', ''seed'' \<mapsto> PInt 42]"
  let ?i2 = "[''mesh_path'' \<mapsto> PStr ''assets/creature.obj'', ''seed'' \<mapsto> PInt 7]"
  let ?r = "[(''output_mesh_path'', PStr ''assets/uv_creature.obj''),
      (''packed_mesh_path'', PNone),
      (''num_components'', PInt 0),
      (''distortion'', PFloat 0),
      (''uv_info'',
         PDict [(''success'', PBool True),
                (''distortion_threshold'', PFloat 1.25),
                (''pack_method'', PStr ''blender'')])]"
  have agree: "MeshRetopologyModel.supported_input_formats ?rm
        = MeshRetopologyModel.supported_input_formats ?rm'
      \<and> MeshRetopologyModel.supported_output_formats ?rm
        = MeshRetopologyModel.supported_output_formats ?rm'
      \<and> target_vertex_count ?rm = target_vertex_count ?rm'
      \<and> ?i1 ''mesh_path'' = ?i2 ''mesh_path''
      \<and> ?i1 ''output_format'' = ?i2 ''output_format''
      \<and> ?i1 ''target_vertex_count'' = ?i2 ''target_vertex_count''"
    by (simp add: model_defs)
  have run: "uv_process_request ?env ?um [''mesh_path'' \<mapsto> PStr ''assets/creature.obj''] = Inr ?r"
    by (simp add: uv_process_request_def runtime_defs path_defs string_defs model_defs)
  note det = process_request_deterministic [where rm = "?rm" and rm' = "?rm'" and env = "?env"
      and inputs = "?i1" and inputs' = "?i2"]
  from det have "MeshRetopologyModel.supported_input_formats ?rm
        = MeshRetopologyModel.supported_input_formats ?rm'
      \<and> MeshRetopologyModel.supported_output_formats ?rm
        = MeshRetopologyModel.supported_output_formats ?rm'
      \<and> target_vertex_count ?rm = target_vertex_count ?rm'
      \<and> ?i1 ''mesh_path'' = ?i2 ''mesh_path''
      \<and> ?i1 ''output_format'' = ?i2 ''output_format''
      \<and> ?i1 ''target_vertex_count'' = ?i2 ''target_vertex_count''
      \<longrightarrow> retopo_process_request ?env ?rm ?i1 = retopo_process_request ?env ?rm' ?i2"
    by (rule conjunct1)
  from this agree have same: "retopo_process_request ?env ?rm ?i1
      = retopo_process_request ?env ?rm' ?i2"
    by (rule mp)
  note echo = process_request_deterministic [where um = "?um" and env = "?env"
      and inputs = "[''mesh_path'' \<mapsto> PStr ''assets/creature.obj'']" and v = "PInt 7"]
  note echoed = echo [THEN conjunct2, THEN conjunct2, THEN conjunct2, THEN conjunct2,
      THEN spec, THEN mp, OF run]
  then obtain r' where "uv_process_request ?env ?um
                 ([''mesh_path'' \<mapsto> PStr ''assets/creature.obj''](''pack_method'' \<mapsto> PInt 7))
               = Inr r'
             \<and> getitem2 r' ''uv_info'' ''pack_method'' = Some (PInt 7)
             \<and> map fst r' = map fst ?r
             \<and> (\<forall>k. k \<noteq> ''uv_info'' \<longrightarrow> getitem r' k = getitem ?r k)" ..
  then have "\<exists>r'. uv_process_request ?env ?um
        [''mesh_path'' \<mapsto> PStr ''assets/creature.obj'', ''pack_method'' \<mapsto> PInt 7] = Inr r'
      \<and> getitem2 r' ''uv_info'' ''pack_method'' = Some (PInt 7)"
    by (intro exI [of _ r']) simp
  with same show ?thesis by (rule conjI)
qed

section \<open>Introspection is pure\<close>

lemma getitem_dict_update:
  "getitem (dict_update d other) k
     = (case map_of (rev other) k of Some v \<Rightarrow> Some v | None \<Rightarrow> getitem d k)"
proof (induction other arbitrary: d)
  case Nil
  then show ?case by (simp add: dict_update_def)
next
  case (Cons kv other)
  obtain a b where kv: "kv = (a, b)" by (cases kv)
  have step: "dict_update d (kv # other) = dict_update (AList.update a b d) other"
    by (simp add: dict_update_def kv)
  show ?case
    unfolding step Cons.IH
    by (simp add: kv getitem_def update_conv' map_add_def split: option.splits)
qed

text \<open>
  Claim C6. \<open>get_supported_formats\<close> of either model leaves the model as it was and
  returns a value fixed by the two format lists. \<open>get_model_info\<close> changes nothing
  of its own: the model after the call is the one \<open>get_info\<close> leaves, so it is
  unchanged whenever \<open>get_info\<close> leaves it unchanged; and its value is fixed by the
  base info and by \<open>target_vertex_count\<close> (respectively \<open>distortion_threshold\<close>),
  which it reports under that key.
\<close>

theorem introspection_pure:
  "snd (retopo_get_supported_formats rm) = rm
   \<and> (MeshRetopologyModel.supported_input_formats rm
         = MeshRetopologyModel.supported_input_formats rm'
       \<and> MeshRetopologyModel.supported_output_formats rm
         = MeshRetopologyModel.supported_output_formats rm'
       \<longrightarrow> fst (retopo_get_supported_formats rm) = fst (retopo_get_supported_formats rm'))
   \<and> snd (uv_get_supported_formats um) = um
   \<and> (UVUnwrappingModel.supported_input_formats um
         = UVUnwrappingModel.supported_input_formats um'
       \<and> UVUnwrappingModel.supported_output_formats um
         = UVUnwrappingModel.supported_output_formats um'
       \<longrightarrow> fst (uv_get_supported_formats um) = fst (uv_get_supported_formats um'))
   \<and> (snd (rinfo rm) = rm \<longrightarrow> snd (retopo_get_model_info rinfo rm) = rm)
   \<and> (snd (rinfo rm) = rm \<and> snd (rinfo' rm') = rm' \<and> fst (rinfo rm) = fst (rinfo' rm')
       \<and> target_vertex_count rm = target_vertex_count rm'
       \<longrightarrow> fst (retopo_get_model_info rinfo rm) = fst (retopo_get_model_info rinfo' rm'))
   \<and> (snd (rinfo rm) = rm
       \<longrightarrow> getitem (fst (retopo_get_model_info rinfo rm)) ''target_vertex_count''
             = Some (of_opt_int (target_vertex_count rm)))
   \<and> (snd (uinfo um) = um \<longrightarrow> snd (uv_get_model_info uinfo um) = um)
   \<and> (snd (uinfo um) = um \<and> snd (uinfo' um') = um' \<and> fst (uinfo um) = fst (uinfo' um')
       \<and> distortion_threshold um = distortion_threshold um'
       \<longrightarrow> fst (uv_get_model_info uinfo um) = fst (uv_get_model_info uinfo' um'))
   \<and> (snd (uinfo um) = um
       \<longrightarrow> getitem (fst (uv_get_model_info uinfo um)) ''distortion_threshold''
             = Some (PFloat (distortion_threshold um)))"
proof (intro conjI impI)
  show "snd (retopo_get_supported_formats rm) = rm"
    by (simp add: retopo_get_supported_formats_def)
  show "snd (uv_get_supported_formats um) = um"
    by (simp add: uv_get_supported_formats_def)
next
  assume "MeshRetopologyModel.supported_input_formats rm
         = MeshRetopologyModel.supported_input_formats rm'
       \<and> MeshRetopologyModel.supported_output_formats rm
         = MeshRetopologyModel.supported_output_formats rm'"
  then show "fst (retopo_get_supported_formats rm) = fst (retopo_get_supported_formats rm')"
    by (simp add: retopo_get_supported_formats_def)
next
  assume "UVUnwrappingModel.supported_input_formats um
         = UVUnwrappingModel.supported_input_formats um'
       \<and> UVUnwrappingModel.supported_output_formats um
         = UVUnwrappingModel.supported_output_formats um'"
  then show "fst (uv_get_supported_formats um) = fst (uv_get_supported_formats um')"
    by (simp add: uv_get_supported_formats_def)
next
  assume "snd (rinfo rm) = rm"
  then show "snd (retopo_get_model_info rinfo rm) = rm"
    by (simp add: retopo_get_model_info_def split_beta)
next
  assume "snd (rinfo rm) = rm \<and> snd (rinfo' rm') = rm' \<and> fst (rinfo rm) = fst (rinfo' rm')
       \<and> target_vertex_count rm = target_vertex_count rm'"
  then show "fst (retopo_get_model_info rinfo rm) = fst (retopo_get_model_info rinfo' rm')"
    by (simp add: retopo_get_model_info_def split_beta)
next
  assume "snd (rinfo rm) = rm"
  then show "getitem (fst (retopo_get_model_info rinfo rm)) ''target_vertex_count''
             = Some (of_opt_int (target_vertex_count rm))"
    by (simp add: retopo_get_model_info_def split_beta getitem_dict_update)
next
  assume "snd (uinfo um) = um"
  then show "snd (uv_get_model_info uinfo um) = um"
    by (simp add: uv_get_model_info_def split_beta)
next
  assume "snd (uinfo um) = um \<and> snd (uinfo' um') = um' \<and> fst (uinfo um) = fst (uinfo' um')
       \<and> distortion_threshold um = distortion_threshold um'"
  then show "fst (uv_get_model_info uinfo um) = fst (uv_get_model_info uinfo' um')"
    by (simp add: uv_get_model_info_def split_beta)
next
  assume "snd (uinfo um) = um"
  then show "getitem (fst (uv_get_model_info uinfo um)) ''distortion_threshold''
             = Some (PFloat (distortion_threshold um))"
    by (simp add: uv_get_model_info_def split_beta getitem_dict_update)
qed

theorem introspection_pure_witness:
  "fst (retopo_get_supported_formats
         (MeshRetopologyModel_init ''fastmesh_a'' ''pretrained/a'' 4096 None None (Some 1000)))
     = fst (retopo_get_supported_formats
         (MeshRetopologyModel_init ''fastmesh_b'' ''pretrained/b'' 8192 None None None))
   \<and> snd (retopo_get_model_info
         (\<lambda>m. ([(''model_id'', PStr (model_id m)), (''status'', PStr ''unloaded'')], m))
         (MeshRetopologyModel_init ''fastmesh_a'' ''pretrained/a'' 4096 None None (Some 1000)))
     = MeshRetopologyModel_init ''fastmesh_a'' ''pretrained/a'' 4096 None None (Some 1000)
   \<and> getitem (fst (retopo_get_model_info
         (\<lambda>m. ([(''model_id'', PStr (model_id m)), (''status'', PStr ''unloaded'')], m))
         (MeshRetopologyModel_init ''fastmesh_a'' ''pretrained/a'' 4096 None None (Some 1000))))
       ''target_vertex_count'' = Some (PInt 1000)
   \<and> snd (uv_get_model_info
         (\<lambda>m. ([(''model_id'', PStr (model_id m)), (''status'', PStr ''unloaded'')], m))
         (UVUnwrappingModel_init ''partuv'' ''pretrained'' 4096 None None 1.25))
     = UVUnwrappingModel_init ''partuv'' ''pretrained'' 4096 None None 1.25
   \<and> getitem (fst (uv_get_model_info
         (\<lambda>m. ([(''model_id'', PStr (model_id m)), (''status'', PStr ''unloaded'')], m))
         (UVUnwrappingModel_init ''partuv'' ''pretrained'' 4096 None None 1.25)))
       ''distortion_threshold'' = Some (PFloat 1.25)"
proof -
  let ?rm = "MeshRetopologyModel_init ''fastmesh_a'' ''pretrained/a'' 4096 None None (Some 1000)"
  let ?rm' = "MeshRetopologyModel_init ''fastmesh_b'' ''pretrained/b'' 8192 None None None"
  let ?um = "UVUnwrappingModel_init ''partuv'' ''pretrained'' 4096 None None 1.25"
  let ?rinfo = "\<lambda>m::MeshRetopologyModel.
      ([(''model_id'', PStr (model_id m)), (''status'', PStr ''unloaded'')], m)"
  let ?uinfo = "\<lambda>m::UVUnwrappingModel.
      ([(''model_id'', PStr (model_id m)), (''status'', PStr ''unloaded'')], m)"
  have agree: "MeshRetopologyModel.supported_input_formats ?rm
         = MeshRetopologyModel.supported_input_formats ?rm'
       \<and> MeshRetopologyModel.supported_output_formats ?rm
         = MeshRetopologyModel.supported_output_formats ?rm'"
    by (simp add: model_defs)
  have pure_r: "snd (?rinfo ?rm) = ?rm"
    by simp
  have pure_u: "snd (?uinfo ?um) = ?um"
    by simp
  have tvc: "of_opt_int (target_vertex_count ?rm) = PInt 1000"
    by (simp add: model_defs)
  have dt: "distortion_threshold ?um = 1.25"
    by (simp add: model_defs)
  note pure = introspection_pure [where rm = "?rm" and rm' = "?rm'" and um = "?um"
      and rinfo = "?rinfo" and uinfo = "?uinfo"]
  note formats = pure [THEN conjunct2, THEN conjunct1, THEN mp, OF agree]
  note frame_r = pure [THEN conjunct2, THEN conjunct2, THEN conjunct2, THEN conjunct2,
      THEN conjunct1, THEN mp, OF pure_r]
  note value_r = pure [THEN conjunct2, THEN conjunct2, THEN conjunct2, THEN conjunct2,
      THEN conjunct2, THEN conjunct2, THEN conjunct1, THEN mp, OF pure_r]
  note frame_u = pure [THEN conjunct2, THEN conjunct2, THEN conjunct2, THEN conjunct2,
      THEN conjunct2, THEN conjunct2, THEN conjunct2, THEN conjunct1, THEN mp, OF pure_u]
  note value_u = pure [THEN conjunct2, THEN conjunct2, THEN conjunct2, THEN conjunct2,
      THEN conjunct2, THEN conjunct2, THEN conjunct2, THEN conjunct2, THEN conjunct2,
      THEN mp, OF pure_u]
  from formats frame_r value_r frame_u value_u show ?thesis
    unfolding tvc dt by (intro conjI)
qed

section \<open>The VRAM ledger\<close>



































lemma release_idempotent:
  "snd (release (snd (release sys gid mid)) gid mid) = snd (release sys gid mid)"
  by (simp add: release_def split: option.splits)





section \<open>The rounding error of a floating-point operation\<close>

lemma exponent_lower:
  assumes "0 < x"
  shows "2 powi exponent x \<le> x"
proof -
  obtain p q where pq: "quotient_of x = (p, q)"
    by (cases "quotient_of x")
  have q: "0 < q"
    using pq by (rule quotient_of_denom_pos)
  have x: "x = of_int p / of_int q"
    using pq by (rule quotient_of_div)
  have p: "0 < p"
    using assms q unfolding x by (simp add: zero_less_divide_iff)
  let ?a = "floorlog 2 (nat p)" and ?b = "floorlog 2 (nat q)"
  let ?d = "int ?a - int ?b"
  have a: "2 ^ (?a - 1) \<le> nat p" and b: "nat q < 2 ^ ?b"
    using floorlog_bounds [of "nat p" 2] floorlog_bounds [of "nat q" 2] p q by simp_all
  have a1: "1 \<le> ?a"
    using p by (simp add: floorlog_def)
  have "(2::rat) ^ (?a - 1) \<le> of_nat (nat p)"
    using a by (metis of_nat_le_iff of_nat_numeral of_nat_power)
  then have lo: "(2::rat) ^ (?a - 1) \<le> of_int p"
    using p by simp
  have "(of_nat (nat q) :: rat) < 2 ^ ?b"
    using b by (metis of_nat_less_iff of_nat_numeral of_nat_power)
  then have hi: "(of_int q :: rat) < 2 ^ ?b"
    using q by simp
  have idx: "?d - 1 = int (?a - 1) - int ?b"
    using a1 by linarith
  have "(2::rat) powi (?d - 1) = 2 powi (int (?a - 1) - int ?b)"
    by (simp only: idx)
  also have "\<dots> = 2 powi (int (?a - 1)) / 2 powi (int ?b)"
    by (rule power_int_diff) simp
  also have "\<dots> = 2 ^ (?a - 1) / 2 ^ ?b"
    by simp
  also have "\<dots> \<le> of_int p / 2 ^ ?b"
    using lo by (simp add: divide_right_mono)
  also have "\<dots> \<le> of_int p / of_int q"
    using hi p q by (intro divide_left_mono) (simp_all add: less_imp_le)
  finally have below: "(2::rat) powi (?d - 1) \<le> x"
    unfolding x .
  show ?thesis
    using below by (simp add: exponent_def pq Let_def)
qed

lemma round_half_even_error: "\<bar>of_int (round_half_even y) - y\<bar> \<le> 1 / 2"
proof -
  have "of_int \<lfloor>y\<rfloor> \<le> y" "y < of_int \<lfloor>y\<rfloor> + 1"
    by linarith+
  then show ?thesis
    by (auto simp add: round_half_even_def Let_def abs_le_iff)
qed

lemma round_double_error:
  assumes "0 < x"
  shows "\<bar>round_double x - x\<bar> \<le> x / 2 ^ 53"
proof -
  let ?e = "exponent x"
  let ?s = "(2::rat) powi (?e - 52)"
  let ?m = "round_half_even (x / ?s)"
  have s: "0 < ?s"
    by simp
  have rd: "round_double x = of_int ?m * ?s"
    using assms by (simp add: round_double_def Let_def)
  have "\<bar>of_int ?m * ?s - x\<bar> = \<bar>of_int ?m - x / ?s\<bar> * ?s"
  proof -
    have "of_int ?m * ?s - x = (of_int ?m - x / ?s) * ?s"
      using s by (simp add: field_simps)
    then show ?thesis
      using s by (simp add: abs_mult)
  qed
  also have "\<dots> \<le> (1 / 2) * ?s"
    using round_half_even_error [of "x / ?s"] s by (intro mult_right_mono) simp_all
  also have "\<dots> = 2 powi ?e / 2 ^ 53"
  proof -
    have "(2::rat) powi (?e - 52) = 2 powi ?e / 2 powi 52"
      by (rule power_int_diff) simp
    then show ?thesis by simp
  qed
  also have "\<dots> \<le> x / 2 ^ 53"
    using exponent_lower [OF assms] by (simp add: divide_right_mono)
  finally show ?thesis
    unfolding rd .
qed

lemma round_double_bounds:
  assumes "0 < x"
  shows "x * (1 - 1 / 2 ^ 53) \<le> round_double x" and "round_double x \<le> x * (1 + 1 / 2 ^ 53)"
proof -
  have "\<bar>round_double x - x\<bar> \<le> x * (1 / 2 ^ 53)"
    using round_double_error [OF assms] by simp
  then have "x - x * (1 / 2 ^ 53) \<le> round_double x"
    and "round_double x \<le> x + x * (1 / 2 ^ 53)"
    by linarith+
  then show "x * (1 - 1 / 2 ^ 53) \<le> round_double x"
    and "round_double x \<le> x * (1 + 1 / 2 ^ 53)"
    by (simp_all only: right_diff_distrib distrib_left mult_1_right)
qed

lemma round_double_pos:
  assumes "0 < x"
  shows "0 < round_double x"
proof -
  have "0 < x * (1 - 1 / 2 ^ 53)"
    using assms by simp
  with round_double_bounds(1) [OF assms] show ?thesis by linarith
qed

lemma min_scaled:
  assumes "a * c \<le> x" and "x \<le> a * d" and "b * c \<le> y" and "y \<le> b * d"
    and "0 \<le> c" and "0 \<le> d"
  shows "min a b * c \<le> min x y" and "min x y \<le> min a b * (d::rat)"
proof -
  have "min a b * c \<le> a * c" "min a b * c \<le> b * c"
    using assms(5) by (simp_all add: mult_right_mono)
  with assms(1,3) show "min a b * c \<le> min x y"
    by simp
  show "min x y \<le> min a b * d"
  proof (cases "a \<le> b")
    case True
    then have "min a b * d = a * d" by simp
    moreover have "min x y \<le> x" by simp
    ultimately show ?thesis using assms(2) by (simp only: order_trans)
  next
    case False
    then have "min a b * d = b * d" by simp
    moreover have "min x y \<le> y" by simp
    ultimately show ?thesis using assms(4) by (simp only: order_trans)
  qed
qed

lemma cube_bounds:
  "(1 + 1 / 2 ^ 53) ^ 3 \<le> (1 + 4 / 2 ^ 53 :: rat)"
  "(1 - 3 / 2 ^ 53 :: rat) \<le> (1 - 1 / 2 ^ 53) ^ 3"
  by (simp_all add: power3_eq_cube)

lemma scaled_dimension:
  fixes \<rho> :: rat
  assumes n: "0 < n" and \<rho>: "0 < \<rho>" and fits: "of_int n * \<rho> \<le> 2048"
    and lo: "\<rho> * (1 - 1 / 2 ^ 53) \<le> ratio" and hi: "ratio \<le> \<rho> * (1 + 1 / 2 ^ 53)"
  shows "0 \<le> int_of_float (float_mul (float_of_int n) ratio)"
    and "int_of_float (float_mul (float_of_int n) ratio) \<le> 2048"
    and "\<bar>of_int (int_of_float (float_mul (float_of_int n) ratio)) - of_int n * \<rho>\<bar>
           < 1 + 1 / 2 ^ 40"
proof -
  let ?u = "1 / 2 ^ 53 :: rat"
  let ?t = "of_int n * \<rho>"
  let ?fn = "float_of_int n"
  let ?fp = "float_mul ?fn ratio"
  have t: "0 < ?t"
    using n \<rho> by simp
  have npos: "(0::rat) < of_int n"
    using n by simp
  have fn: "of_int n * (1 - ?u) \<le> ?fn" "?fn \<le> of_int n * (1 + ?u)"
    unfolding float_of_int_def using round_double_bounds [OF npos] by simp_all
  have ratio_pos: "0 < ratio"
  proof -
    have "0 < \<rho> * (1 - ?u)" using \<rho> by simp
    with lo show ?thesis by linarith
  qed
  have fn_pos: "0 < ?fn"
    unfolding float_of_int_def using npos by (rule round_double_pos)
  have prod_pos: "0 < ?fn * ratio"
    using fn_pos ratio_pos by simp
  have prod_lo: "?t * (1 - ?u) ^ 2 \<le> ?fn * ratio"
  proof -
    have "(of_int n * (1 - ?u)) * (\<rho> * (1 - ?u)) \<le> ?fn * ratio"
      using fn(1) lo npos \<rho> fn_pos by (intro mult_mono) simp_all
    then show ?thesis by (simp add: power2_eq_square mult_ac)
  qed
  have prod_hi: "?fn * ratio \<le> ?t * (1 + ?u) ^ 2"
  proof -
    have "?fn * ratio \<le> (of_int n * (1 + ?u)) * (\<rho> * (1 + ?u))"
      using fn(2) hi npos \<rho> fn_pos ratio_pos by (intro mult_mono) simp_all
    then show ?thesis by (simp add: power2_eq_square mult_ac)
  qed
  have fp: "(?fn * ratio) * (1 - ?u) \<le> ?fp" "?fp \<le> (?fn * ratio) * (1 + ?u)"
    unfolding float_mul_def using round_double_bounds [OF prod_pos] by simp_all
  have fp_pos: "0 < ?fp"
    unfolding float_mul_def using prod_pos by (rule round_double_pos)
  have fp_lo: "?t * (1 - ?u) ^ 3 \<le> ?fp"
  proof -
    have "(?t * (1 - ?u) ^ 2) * (1 - ?u) \<le> (?fn * ratio) * (1 - ?u)"
      using prod_lo by (intro mult_right_mono) simp_all
    with fp(1) show ?thesis by (simp add: power3_eq_cube power2_eq_square mult_ac)
  qed
  have fp_hi: "?fp \<le> ?t * (1 + ?u) ^ 3"
  proof -
    have "(?fn * ratio) * (1 + ?u) \<le> (?t * (1 + ?u) ^ 2) * (1 + ?u)"
      using prod_hi by (intro mult_right_mono) simp_all
    with fp(2) show ?thesis by (simp add: power3_eq_cube power2_eq_square mult_ac)
  qed
  have above: "?fp \<le> ?t + 1 / 2 ^ 40"
  proof -
    have "?t * (1 + ?u) ^ 3 \<le> ?t * (1 + 4 / 2 ^ 53)"
      using t cube_bounds(1) by (intro mult_left_mono) simp_all
    also have "\<dots> = ?t + ?t * (4 / 2 ^ 53)"
      by (simp only: distrib_left mult_1_right)
    also have "\<dots> \<le> ?t + 2048 * (4 / 2 ^ 53)"
      using fits by (intro add_left_mono mult_right_mono) simp_all
    also have "\<dots> = ?t + 1 / 2 ^ 40"
      by simp
    finally show ?thesis using fp_hi by linarith
  qed
  have below: "?t - 1 / 2 ^ 40 \<le> ?fp"
  proof -
    have "?t - 2048 * (3 / 2 ^ 53) \<le> ?t - ?t * (3 / 2 ^ 53)"
      using fits by (intro diff_left_mono mult_right_mono) simp_all
    also have "\<dots> = ?t * (1 - 3 / 2 ^ 53)"
      by (simp only: right_diff_distrib mult_1_right)
    also have "\<dots> \<le> ?t * (1 - ?u) ^ 3"
      using t cube_bounds(2) by (intro mult_left_mono) simp_all
    finally have "?t - 2048 * (3 / 2 ^ 53) \<le> ?fp"
      using fp_lo by linarith
    moreover have "(2048 * (3 / 2 ^ 53) :: rat) \<le> 1 / 2 ^ 40"
      by simp
    ultimately show ?thesis by linarith
  qed
  have trunc: "int_of_float ?fp = \<lfloor>?fp\<rfloor>"
    using fp_pos by (simp add: int_of_float_def)
  show "0 \<le> int_of_float ?fp"
    unfolding trunc using fp_pos by simp
  have "?fp < 2049"
    using above fits by simp
  then have "\<lfloor>?fp\<rfloor> < 2049"
    by (simp add: floor_less_iff)
  then show "int_of_float ?fp \<le> 2048"
    unfolding trunc by simp
  have f1: "of_int \<lfloor>?fp\<rfloor> \<le> ?fp"
    by (rule of_int_floor_le)
  have f2: "?fp < of_int \<lfloor>?fp\<rfloor> + 1"
    by linarith
  have up: "of_int \<lfloor>?fp\<rfloor> - ?t < 1 + 1 / 2 ^ 40"
    using f1 above by linarith
  have down: "?t - of_int \<lfloor>?fp\<rfloor> < 1 + 1 / 2 ^ 40"
    using f2 below by linarith
  from up down show "\<bar>of_int (int_of_float ?fp) - ?t\<bar> < 1 + 1 / 2 ^ 40"
    unfolding trunc abs_less_iff by linarith
qed

lemma resize_ratio_close:
  assumes "0 < width" and "0 < height"
  defines "\<rho> \<equiv> min (2048 / of_int width) (2048 / of_int height) :: rat"
  shows "0 < \<rho>"
    and "of_int width * \<rho> \<le> 2048" and "of_int height * \<rho> \<le> 2048"
    and "\<rho> * (1 - 1 / 2 ^ 53) \<le> resize_ratio width height"
    and "resize_ratio width height \<le> \<rho> * (1 + 1 / 2 ^ 53)"
proof -
  let ?a = "2048 / of_int width :: rat" and ?b = "2048 / of_int height :: rat"
  have a: "0 < ?a" and b: "0 < ?b"
    using assms(1,2) by simp_all
  show "0 < \<rho>"
    unfolding \<rho>_def using a b by simp
  have "of_int width * \<rho> \<le> of_int width * ?a"
    unfolding \<rho>_def using assms(1) by (intro mult_left_mono) simp_all
  then show "of_int width * \<rho> \<le> 2048"
    using assms(1) by simp
  have "of_int height * \<rho> \<le> of_int height * ?b"
    unfolding \<rho>_def using assms(2) by (intro mult_left_mono) simp_all
  then show "of_int height * \<rho> \<le> 2048"
    using assms(2) by simp
  have ra: "?a * (1 - 1 / 2 ^ 53) \<le> true_div 2048 width"
      "true_div 2048 width \<le> ?a * (1 + 1 / 2 ^ 53)"
    unfolding true_div_def using round_double_bounds [OF a] by simp_all
  have rb: "?b * (1 - 1 / 2 ^ 53) \<le> true_div 2048 height"
      "true_div 2048 height \<le> ?b * (1 + 1 / 2 ^ 53)"
    unfolding true_div_def using round_double_bounds [OF b] by simp_all
  show "\<rho> * (1 - 1 / 2 ^ 53) \<le> resize_ratio width height"
    unfolding \<rho>_def resize_ratio_def
    by (rule min_scaled(1) [OF ra rb]) simp_all
  show "resize_ratio width height \<le> \<rho> * (1 + 1 / 2 ^ 53)"
    unfolding \<rho>_def resize_ratio_def
    by (rule min_scaled(2) [OF ra rb]) simp_all
qed

lemma exponent_upper:
  assumes "0 < x"
  shows "x < 2 powi (exponent x + 1)"
proof -
  obtain p q where pq: "quotient_of x = (p, q)"
    by (cases "quotient_of x")
  have q: "0 < q"
    using pq by (rule quotient_of_denom_pos)
  have x: "x = of_int p / of_int q"
    using pq by (rule quotient_of_div)
  have p: "0 < p"
    using assms q unfolding x by (simp add: zero_less_divide_iff)
  let ?a = "floorlog 2 (nat p)" and ?b = "floorlog 2 (nat q)"
  let ?d = "int ?a - int ?b"
  have a: "nat p < 2 ^ ?a" and b: "2 ^ (?b - 1) \<le> nat q"
    using floorlog_bounds [of "nat p" 2] floorlog_bounds [of "nat q" 2] p q by simp_all
  have b1: "1 \<le> ?b"
    using q by (simp add: floorlog_def)
  have "(of_nat (nat p) :: rat) < 2 ^ ?a"
    using a by (metis of_nat_less_iff of_nat_numeral of_nat_power)
  then have hi: "(of_int p :: rat) < 2 ^ ?a"
    using p by simp
  have "(2::rat) ^ (?b - 1) \<le> of_nat (nat q)"
    using b by (metis of_nat_le_iff of_nat_numeral of_nat_power)
  then have lo: "(2::rat) ^ (?b - 1) \<le> of_int q"
    using q by simp
  have idx: "?d + 1 = int ?a - int (?b - 1)"
    using b1 by linarith
  have "x < 2 ^ ?a / of_int q"
    unfolding x using hi q by (simp add: divide_strict_right_mono)
  also have "\<dots> \<le> 2 ^ ?a / 2 ^ (?b - 1)"
    using lo q by (intro divide_left_mono) (simp_all add: zero_less_mult_iff)
  also have "\<dots> = 2 powi (int ?a) / 2 powi (int (?b - 1))"
    by simp
  also have "\<dots> = 2 powi (int ?a - int (?b - 1))"
    by (rule power_int_diff [symmetric]) simp
  also have "\<dots> = 2 powi (?d + 1)"
    by (simp only: idx)
  finally have above: "x < 2 powi (?d + 1)" .
  show ?thesis
  proof (cases "(2::rat) powi ?d \<le> x")
    case True
    then have "exponent x = ?d"
      by (simp add: exponent_def pq Let_def)
    with above show ?thesis by simp
  next
    case False
    then have "exponent x = ?d - 1"
      by (simp add: exponent_def pq Let_def)
    with False show ?thesis by simp
  qed
qed

lemma exponent_unique:
  assumes "0 < x" and "2 powi e \<le> x" and "x < 2 powi (e + 1)"
  shows "exponent x = e"
proof (rule antisym)
  show "exponent x \<le> e"
  proof (rule ccontr)
    assume "\<not> exponent x \<le> e"
    then have "e + 1 \<le> exponent x" by simp
    then have "(2::rat) powi (e + 1) \<le> 2 powi exponent x"
      by (intro power_int_increasing) simp_all
    with exponent_lower [OF assms(1)] assms(3) show False by simp
  qed
  show "e \<le> exponent x"
  proof (rule ccontr)
    assume "\<not> e \<le> exponent x"
    then have "exponent x + 1 \<le> e" by simp
    then have "(2::rat) powi (exponent x + 1) \<le> 2 powi e"
      by (intro power_int_increasing) simp_all
    with exponent_upper [OF assms(1)] assms(2) show False by simp
  qed
qed

lemma round_half_even_eqI:
  assumes "\<bar>y - of_int m\<bar> < 1 / 2"
  shows "round_half_even y = m"
proof -
  have f: "of_int \<lfloor>y\<rfloor> \<le> y" "y < of_int \<lfloor>y\<rfloor> + 1"
    by linarith+
  have m: "of_int m - 1 / 2 < y" "y < of_int m + 1 / 2"
    using assms unfolding abs_less_iff by linarith+
  consider "\<lfloor>y\<rfloor> = m" | "\<lfloor>y\<rfloor> = m - 1"
  proof -
    have "of_int (m - 1) \<le> y" "y < of_int (m + 1)"
      using m by simp_all
    then have "m - 1 \<le> \<lfloor>y\<rfloor>" "\<lfloor>y\<rfloor> < m + 1"
      by (simp_all only: le_floor_iff floor_less_iff)
    then have "\<lfloor>y\<rfloor> = m \<or> \<lfloor>y\<rfloor> = m - 1"
      by linarith
    with that show ?thesis by blast
  qed
  then show ?thesis
  proof cases
    case 1
    with m show ?thesis
      by (simp add: round_half_even_def Let_def)
  next
    case 2
    have "1 / 2 < y - of_int (m - 1)"
      using m(1) by simp
    then show ?thesis
      using 2 by (simp add: round_half_even_def Let_def)
  qed
qed

lemma round_double_eqI:
  assumes "0 < x" and "2 powi e \<le> x" and "x < 2 powi (e + 1)"
    and "\<bar>x / 2 powi (e - 52) - of_int m\<bar> < 1 / 2"
  shows "round_double x = of_int m * 2 powi (e - 52)"
  using assms(1) exponent_unique [OF assms(1-3)] round_half_even_eqI [OF assms(4)]
  by (simp add: round_double_def Let_def)

lemma int_of_float_eqI:
  assumes "0 \<le> x" and "of_int z \<le> x" and "x < of_int z + 1"
  shows "int_of_float x = z"
  using assms by (simp add: int_of_float_def floor_unique)

section \<open>The size limit of an upload\<close>

text \<open>
  The part of the limit that the arithmetic keeps. For an image of positive
  dimensions, the new size \<open>(int(width * ratio), int(height * ratio))\<close> for the one
  \<open>ratio = min(2048 / width, 2048 / height)\<close>, computed in floating point, has both
  dimensions between 0 and 2048, and each differs from the original dimension
  times the exact ratio \<open>min (2048 / width) (2048 / height)\<close> by less than
  \<open>1 + 2\<^sup>-\<^sup>4\<^sup>0\<close>, the truncation and the rounding of the three operations.
\<close>

lemma new_size_within_limit:
  assumes "0 < width" and "0 < height"
  shows "\<exists>nw nh. new_size width height = (nw, nh)
           \<and> 0 \<le> nw \<and> nw \<le> 2048 \<and> 0 \<le> nh \<and> nh \<le> 2048
           \<and> \<bar>of_int nw - of_int width * min (2048 / of_int width) (2048 / of_int height)\<bar>
               < (1 + 1 / 2 ^ 40 :: rat)
           \<and> \<bar>of_int nh - of_int height * min (2048 / of_int width) (2048 / of_int height)\<bar>
               < (1 + 1 / 2 ^ 40 :: rat)"
proof -
  let ?\<rho> = "min (2048 / of_int width) (2048 / of_int height) :: rat"
  let ?ratio = "resize_ratio width height"
  let ?nw = "int_of_float (float_mul (float_of_int width) ?ratio)"
  let ?nh = "int_of_float (float_mul (float_of_int height) ?ratio)"
  note close = resize_ratio_close [OF assms(1,2)]
  note w = scaled_dimension [OF assms(1) close(1) close(2) close(4) close(5)]
  note h = scaled_dimension [OF assms(2) close(1) close(3) close(4) close(5)]
  have size: "new_size width height = (?nw, ?nh)"
    by (simp add: new_size_def Let_def)
  show ?thesis
    by (intro exI [of _ ?nw] exI [of _ ?nh] conjI size w h)
qed

text \<open>
  An image within the limit is sent as the file is. A larger one is sent resized
  when both sides of the new size are at least 1 and the mode is one the JPEG
  encoder writes.
\<close>

lemma upload_image_original:
  assumes "img_size img = (width, height)" and "width \<le> 2048" and "height \<le> 2048"
  shows "upload_image img = Inr Original"
  using assms by (simp add: upload_image_def)

lemma upload_image_resized:
  assumes "img_size img = (width, height)" and "width > 2048 \<or> height > 2048"
    and "0 < width" and "0 < height"
    and "1 \<le> fst (new_size width height)" and "1 \<le> snd (new_size width height)"
    and "mode img \<in> {''1'', ''L'', ''RGB'', ''RGBX'', ''CMYK'', ''YCbCr''}"
  shows "upload_image img = Inr (Resized (img \<lparr> img_size := new_size width height \<rparr>))"
  using assms by (simp add: upload_image_def resize_def save_jpeg_def)

text \<open>The ratios and products of three images, in binary64.\<close>

lemma new_size_3136_1000: "new_size 3136 1000 = (2047, 653)"
proof -
  have "round_double (2048 / 3136) = of_int 5882252574524729 * 2 powi (- 1 - 52)"
    by (rule round_double_eqI) simp_all
  then have r1: "true_div 2048 3136 = 5882252574524729 / 9007199254740992"
    by (simp add: true_div_def)
  have "round_double (2048 / 1000) = of_int 4611686018427388 * 2 powi (1 - 52)"
    by (rule round_double_eqI) simp_all
  then have r2: "true_div 2048 1000 = 1152921504606847 / 562949953421312"
    by (simp add: true_div_def)
  have ratio: "resize_ratio 3136 1000 = 5882252574524729 / 9007199254740992"
    unfolding resize_ratio_def r1 r2 by simp
  have "round_double 3136 = of_int 6896136929411072 * 2 powi (11 - 52)"
    by (rule round_double_eqI) simp_all
  then have fw: "float_of_int 3136 = 3136"
    by (simp add: float_of_int_def)
  have "round_double 1000 = of_int 8796093022208000 * 2 powi (9 - 52)"
    by (rule round_double_eqI) simp_all
  then have fh: "float_of_int 1000 = 1000"
    by (simp add: float_of_int_def)
  have "round_double (3136 * (5882252574524729 / 9007199254740992))
      = of_int 9007199254740991 * 2 powi (10 - 52)"
    by (rule round_double_eqI) simp_all
  then have pw: "float_mul 3136 (5882252574524729 / 9007199254740992)
      = 9007199254740991 / 4398046511104"
    by (simp add: float_mul_def)
  have "round_double (1000 * (5882252574524729 / 9007199254740992))
      = of_int 5744387279809306 * 2 powi (9 - 52)"
    by (rule round_double_eqI) simp_all
  then have ph: "float_mul 1000 (5882252574524729 / 9007199254740992)
      = 2872193639904653 / 4398046511104"
    by (simp add: float_mul_def)
  have nw: "int_of_float (9007199254740991 / 4398046511104) = 2047"
    by (rule int_of_float_eqI) simp_all
  have nh: "int_of_float (2872193639904653 / 4398046511104) = 653"
    by (rule int_of_float_eqI) simp_all
  show ?thesis
    unfolding new_size_def Let_def ratio fw fh pw ph nw nh by simp
qed

lemma new_size_2049_1: "new_size 2049 1 = (2048, 0)"
proof -
  have "round_double (2048 / 2049) = of_int 9002803354665472 * 2 powi (- 1 - 52)"
    by (rule round_double_eqI) simp_all
  then have r1: "true_div 2048 2049 = 17583600302081 / 17592186044416"
    by (simp add: true_div_def)
  have "round_double 2048 = of_int 4503599627370496 * 2 powi (11 - 52)"
    by (rule round_double_eqI) simp_all
  then have r2: "true_div 2048 1 = 2048"
    by (simp add: true_div_def)
  have ratio: "resize_ratio 2049 1 = 17583600302081 / 17592186044416"
    unfolding resize_ratio_def r1 r2 by simp
  have "round_double 2049 = of_int 4505798650626048 * 2 powi (11 - 52)"
    by (rule round_double_eqI) simp_all
  then have fw: "float_of_int 2049 = 2049"
    by (simp add: float_of_int_def)
  have "round_double 1 = of_int 4503599627370496 * 2 powi (0 - 52)"
    by (rule round_double_eqI) simp_all
  then have fh: "float_of_int 1 = 1"
    by (simp add: float_of_int_def)
  have "round_double (2049 * (17583600302081 / 17592186044416))
      = of_int 4503599627370496 * 2 powi (11 - 52)"
    by (rule round_double_eqI) simp_all
  then have pw: "float_mul 2049 (17583600302081 / 17592186044416) = 2048"
    by (simp add: float_mul_def)
  have "round_double (1 * (17583600302081 / 17592186044416))
      = of_int 9002803354665472 * 2 powi (- 1 - 52)"
    by (rule round_double_eqI) simp_all
  then have ph: "float_mul 1 (17583600302081 / 17592186044416)
      = 17583600302081 / 17592186044416"
    by (simp add: float_mul_def)
  have nw: "int_of_float 2048 = 2048"
    by (simp add: int_of_float_def)
  have nh: "int_of_float (17583600302081 / 17592186044416) = 0"
    by (rule int_of_float_eqI) simp_all
  show ?thesis
    unfolding new_size_def Let_def ratio fw fh pw ph nw nh by simp
qed

lemma new_size_4096_4096: "new_size 4096 4096 = (2048, 2048)"
proof -
  have "round_double (2048 / 4096) = of_int 4503599627370496 * 2 powi (- 1 - 52)"
    by (rule round_double_eqI) simp_all
  then have r: "true_div 2048 4096 = 1 / 2"
    by (simp add: true_div_def)
  have ratio: "resize_ratio 4096 4096 = 1 / 2"
    unfolding resize_ratio_def r by simp
  have "round_double 4096 = of_int 4503599627370496 * 2 powi (12 - 52)"
    by (rule round_double_eqI) simp_all
  then have f: "float_of_int 4096 = 4096"
    by (simp add: float_of_int_def)
  have "round_double (4096 * (1 / 2)) = of_int 4503599627370496 * 2 powi (11 - 52)"
    by (rule round_double_eqI) simp_all
  then have p: "float_mul 4096 (1 / 2) = 2048"
    by (simp add: float_mul_def)
  have n: "int_of_float 2048 = 2048"
    by (simp add: int_of_float_def)
  show ?thesis
    unfolding new_size_def Let_def ratio f p n by simp
qed

lemma upload_image_3136_1000:
  "upload_image \<lparr> img_size = (3136, 1000), mode = ''RGB'' \<rparr>
     = Inr (Resized \<lparr> img_size = (2047, 653), mode = ''RGB'' \<rparr>)
   \<and> upload_image \<lparr> img_size = (2048, 1536), mode = ''RGBA'' \<rparr> = Inr Original"
  by (simp add: upload_image_def resize_def save_jpeg_def new_size_3136_1000)

text \<open>
  Claim C10. The claim has every image that exceeds 2048 pixels rescaled by the
  one ratio and then uploaded. On an image of 2049 by 1 pixels the new size is
  \<open>(2048, 0)\<close>, since \<open>int(1 * (2048 / 2049))\<close> is \<open>0\<close>: \<open>resize\<close> raises
  \<open>ValueError\<close> and nothing is uploaded. On an image of 4096 by 4096 pixels of
  mode \<open>RGBA\<close> the new size is \<open>(2048, 2048)\<close> and the resized image keeps the mode,
  which the JPEG encoder does not write: \<open>save\<close> raises \<open>OSError\<close> and nothing is
  uploaded.
\<close>

theorem upload_image_not_uploaded:
  "new_size 2049 1 = (2048, 0)
   \<and> upload_image \<lparr> img_size = (2049, 1), mode = ''RGB'' \<rparr>
       = Inl (ResizeValueError (2048, 0))
   \<and> new_size 4096 4096 = (2048, 2048)
   \<and> upload_image \<lparr> img_size = (4096, 4096), mode = ''RGBA'' \<rparr>
       = Inl (SaveOSError ''RGBA'')"
proof -
  have flat: "upload_image \<lparr> img_size = (2049, 1), mode = ''RGB'' \<rparr>
      = Inl (ResizeValueError (2048, 0))"
    by (simp add: upload_image_def resize_def new_size_2049_1)
  have resized: "resize \<lparr> img_size = (4096, 4096), mode = ''RGBA'' \<rparr> (2048, 2048)
      = Inr \<lparr> img_size = (2048, 2048), mode = ''RGBA'' \<rparr>"
    by (simp add: resize_def)
  have refused: "save_jpeg \<lparr> img_size = (2048, 2048), mode = ''RGBA'' \<rparr>
      = Some (SaveOSError ''RGBA'')"
    by (simp add: save_jpeg_def)
  have alpha: "upload_image \<lparr> img_size = (4096, 4096), mode = ''RGBA'' \<rparr>
      = Inl (SaveOSError ''RGBA'')"
    by (simp add: upload_image_def new_size_4096_4096 resized refused)
  from new_size_2049_1 flat new_size_4096_4096 alpha show ?thesis
    by (intro conjI)
qed

end
